theory Spec2Isabelle
  imports Main "HOL-Library.Word"
begin

section \<open>Exceptions and outcomes of stateful operations\<close>

text \<open>
  The library signals failure by throwing \<^verbatim>\<open>RwException( message )\<close>. An exception thrown by
  the code modelled here carries the message of the throw site; an exception that escapes
  from a codec callback is passed on unchanged and is kept apart as \<open>CodecException\<close>,
  carrying whatever the callback threw.

  A C++ operation mutates its arguments in place, so an outcome carries the state the
  operation left behind, also when it throws. \<open>Undefined\<close> stands for undefined behaviour
  of the source (a dead pointer dereferenced, a vector indexed past its end) and for a
  failed \<^verbatim>\<open>assert\<close>.
\<close>

datatype RwException = RwException string | CodecException string

datatype ('e, 'r, 's) outcome = Returned 'r 's | Thrown 'e 's | Undefined

section \<open>Raster: owning references and const-references\<close>

type_synonym raster_ptr = nat

record 'tex Raster =
  refCount :: int
  constRefCount :: int
  platformData :: "'tex option"

text \<open>The heap of live rasters; a destroyed raster is no longer in it.\<close>

type_synonym 'tex heap = "raster_ptr \<Rightarrow> 'tex Raster option"

text \<open>
  Modelled from the spec: \<^verbatim>\<open>Raster::addConstRef\<close>, \<^verbatim>\<open>Raster::remConstRef\<close>,
  \<^verbatim>\<open>AcquireRaster\<close> and \<^verbatim>\<open>DeleteRaster\<close> are declared in txdread.raster.hxx, which is not
  among the source files. Section 4.C: the const-reference count is incremented and
  decremented; acquire increments the owning count and returns the same raster; delete
  decrements it, and the raster is destroyed on zero owners, a positive const-count
  pinning it until both counts are zero. On a pointer that is not live the helpers leave
  the heap as it is.
\<close>

definition addConstRef :: "raster_ptr \<Rightarrow> 'tex heap \<Rightarrow> 'tex heap" where
  "addConstRef r h =
     (case h r of
        None \<Rightarrow> h
      | Some R \<Rightarrow> h(r \<mapsto> R\<lparr>constRefCount := constRefCount R + 1\<rparr>))"

definition remConstRef :: "raster_ptr \<Rightarrow> 'tex heap \<Rightarrow> 'tex heap" where
  "remConstRef r h =
     (case h r of
        None \<Rightarrow> h
      | Some R \<Rightarrow>
          (let R' = R\<lparr>constRefCount := constRefCount R - 1\<rparr>
           in if refCount R' = 0 \<and> constRefCount R' = 0 then h(r := None) else h(r \<mapsto> R')))"

definition AcquireRaster :: "raster_ptr option \<Rightarrow> 'tex heap \<Rightarrow> raster_ptr option \<times> 'tex heap" where
  "AcquireRaster theRaster h =
     (case theRaster of
        None \<Rightarrow> (None, h)
      | Some r \<Rightarrow>
          (case h r of
             None \<Rightarrow> (Some r, h)
           | Some R \<Rightarrow> (Some r, h(r \<mapsto> R\<lparr>refCount := refCount R + 1\<rparr>))))"

definition DeleteRaster :: "raster_ptr \<Rightarrow> 'tex heap \<Rightarrow> 'tex heap" where
  "DeleteRaster r h =
     (case h r of
        None \<Rightarrow> h
      | Some R \<Rightarrow>
          (let R' = R\<lparr>refCount := refCount R - 1\<rparr>
           in if refCount R' = 0 \<and> constRefCount R' = 0 then h(r := None) else h(r \<mapsto> R')))"

section \<open>Codec and texture-provider interfaces\<close>

record acquireFeedback_t =
  hasDirectlyAcquired :: bool
  hasDirectlyAcquiredPalette :: bool

text \<open>
  \<^verbatim>\<open>nativeImageTypeManager\<close>: the virtual methods of an image codec that natimage.cpp
  calls. \<open>'img\<close> is the codec's payload behind the handle, \<open>'tex\<close> the native texture of
  a raster. A call may change both and may throw.
\<close>

record ('img, 'tex) nativeImageTypeManager =
  ReadFromNativeTexture :: "'img \<Rightarrow> string \<Rightarrow> 'tex \<Rightarrow> (string, acquireFeedback_t, 'img \<times> 'tex) outcome"
  WriteToNativeTexture :: "'img \<Rightarrow> string \<Rightarrow> 'tex \<Rightarrow> (string, acquireFeedback_t, 'img \<times> 'tex) outcome"
  ClearPaletteData :: "'img \<Rightarrow> bool \<Rightarrow> 'img"
  ClearImageData :: "'img \<Rightarrow> bool \<Rightarrow> 'img"

text \<open>
  \<^verbatim>\<open>texNativeTypeProvider\<close> as natimage.cpp uses it: the type name of a native texture,
  \<^verbatim>\<open>Raster::getNativeDataTypeName\<close> (declared outside the source files, hence a field
  here; it may throw), and \<^verbatim>\<open>UnsetPixelDataFromTexture\<close>.
\<close>

record 'tex texNativeTypeProvider =
  nativeTexTypeName :: "'tex \<Rightarrow> string"
  getNativeDataTypeName :: "'tex option \<Rightarrow> RwException + string"
  UnsetPixelDataFromTexture :: "'tex \<Rightarrow> bool \<Rightarrow> 'tex"

section \<open>NativeImage (natimage.cpp)\<close>

record 'img NativeImagePrivate =
  hasPaletteDataRef :: bool
  hasPixelDataRef :: bool
  pixelOwner :: "raster_ptr option"
  externalRasterRef :: bool
  nativeData :: 'img

text \<open>\<^verbatim>\<open>NativeImagePrivate( EngineInterface* )\<close>, around a freshly constructed payload.\<close>

definition NativeImagePrivate_new :: "'img \<Rightarrow> 'img NativeImagePrivate" where
  "NativeImagePrivate_new d =
     \<lparr>hasPaletteDataRef = False, hasPixelDataRef = False, pixelOwner = None,
      externalRasterRef = False, nativeData = d\<rparr>"

text \<open>
  \<^verbatim>\<open>NativeImagePrivate( const NativeImagePrivate& )\<close>. The constructor copies the four
  fields; the payload is cloned by the codec afterwards.
\<close>

definition NativeImagePrivate_copy ::
  "'img NativeImagePrivate \<Rightarrow> 'tex heap \<Rightarrow> 'img NativeImagePrivate \<times> 'tex heap" where
  "NativeImagePrivate_copy right h =
     (let (po, h1) = AcquireRaster (pixelOwner right) h;
          h2 = (case po of None \<Rightarrow> h1 | Some pixelOwner' \<Rightarrow> addConstRef pixelOwner' h1)
      in (\<lparr>hasPaletteDataRef = hasPaletteDataRef right,
           hasPixelDataRef = hasPixelDataRef right,
           pixelOwner = po,
           externalRasterRef = externalRasterRef right,
           nativeData = nativeData right\<rparr>, h2))"

definition clearImageData ::
  "('img, 'tex) nativeImageTypeManager \<Rightarrow> 'img NativeImagePrivate \<Rightarrow> 'tex heap
   \<Rightarrow> 'img NativeImagePrivate \<times> 'tex heap" where
  "clearImageData typeMan img h =
     (let shouldFreeNativePaletteData = (hasPaletteDataRef img = False);
          d1 = ClearPaletteData typeMan (nativeData img) shouldFreeNativePaletteData;
          shouldFreeNativeImageData = (hasPixelDataRef img = False);
          d2 = ClearImageData typeMan d1 shouldFreeNativeImageData;
          img1 = img\<lparr>nativeData := d2, hasPaletteDataRef := False, hasPixelDataRef := False\<rparr>;
          (img2, h2) =
            (case pixelOwner img1 of
               None \<Rightarrow> (img1, h)
             | Some po \<Rightarrow>
                 (let h1 = (if externalRasterRef img1 = False then remConstRef po h else h)
                  in (img1\<lparr>pixelOwner := None\<rparr>, DeleteRaster po h1)))
      in (img2\<lparr>externalRasterRef := False\<rparr>, h2))"

text \<open>
  \<^verbatim>\<open>needsRefOut\<close> is a reference parameter that is only written when the image borrows;
  the model takes the caller's value and returns the value on exit.
\<close>

definition NativeImageFetchFromRaster_internal ::
  "('img, 'tex) nativeImageTypeManager \<Rightarrow> 'img NativeImagePrivate \<Rightarrow> raster_ptr \<Rightarrow> string
   \<Rightarrow> bool \<Rightarrow> 'tex heap \<Rightarrow> (RwException, bool, 'img NativeImagePrivate \<times> 'tex heap) outcome" where
  "NativeImageFetchFromRaster_internal typeMan nativeImg raster nativeTexName needsRef h =
     (case h raster of
        None \<Rightarrow> Undefined
      | Some R \<Rightarrow>
          (case platformData R of
             None \<Rightarrow>
               Thrown (RwException ''raster has no native data in NativeImage raster data acquisition'')
                 (nativeImg, h)
           | Some nativeTex \<Rightarrow>
               (case ReadFromNativeTexture typeMan (nativeData nativeImg) nativeTexName nativeTex of
                  Undefined \<Rightarrow> Undefined
                | Thrown e (d, t) \<Rightarrow>
                    Thrown (CodecException e)
                      (nativeImg\<lparr>nativeData := d\<rparr>, h(raster \<mapsto> R\<lparr>platformData := Some t\<rparr>))
                | Returned acquireFeedback (d, t) \<Rightarrow>
                    (let h1 = h(raster \<mapsto> R\<lparr>platformData := Some t\<rparr>);
                         img1 = nativeImg\<lparr>nativeData := d\<rparr>;
                         hasPaletteReference = hasDirectlyAcquiredPalette acquireFeedback;
                         hasMipmapReference = hasDirectlyAcquired acquireFeedback;
                         (img2, h2, needsRefOut) =
                           (if hasPaletteReference \<or> hasMipmapReference
                            then (let (po, h') = AcquireRaster (Some raster) h1
                                  in (img1\<lparr>pixelOwner := po\<rparr>, h', True))
                            else (img1, h1, needsRef))
                     in Returned needsRefOut
                          (img2\<lparr>hasPaletteDataRef := hasPaletteReference,
                                hasPixelDataRef := hasMipmapReference\<rparr>, h2)))))"

definition fetchFromRaster ::
  "('img, 'tex) nativeImageTypeManager \<Rightarrow> 'tex texNativeTypeProvider \<Rightarrow> 'img NativeImagePrivate
   \<Rightarrow> raster_ptr \<Rightarrow> 'tex heap \<Rightarrow> (RwException, unit, 'img NativeImagePrivate \<times> 'tex heap) outcome" where
  "fetchFromRaster typeMan prov nativeImg raster h =
     (let (img1, h1) = clearImageData typeMan nativeImg h;
          h2 = addConstRef raster h1
      in case h2 raster of
           None \<Rightarrow> Undefined
         | Some R \<Rightarrow>
             (case getNativeDataTypeName prov (platformData R) of
                Inl e \<Rightarrow> Thrown e (img1, remConstRef raster h2)
              | Inr nativeTexName \<Rightarrow>
                  (case NativeImageFetchFromRaster_internal typeMan img1 raster nativeTexName False h2 of
                     Undefined \<Rightarrow> Undefined
                   | Thrown e (img2, h3) \<Rightarrow> Thrown e (img2, remConstRef raster h3)
                   | Returned needsRef (img2, h3) \<Rightarrow>
                       (let img3 = img2\<lparr>externalRasterRef := False\<rparr>
                        in Returned ()
                             (img3, if \<not> needsRef then remConstRef raster h3 else h3)))))"

text \<open>
  \<^verbatim>\<open>NativeImageFetchFromRasterNoLock\<close>: the caller holds the read lock and the
  const-reference on the raster; the value returned is that of \<^verbatim>\<open>needsRefOut\<close>.
\<close>

definition NativeImageFetchFromRasterNoLock ::
  "('img, 'tex) nativeImageTypeManager \<Rightarrow> 'img NativeImagePrivate \<Rightarrow> raster_ptr \<Rightarrow> string
   \<Rightarrow> 'tex heap \<Rightarrow> (RwException, bool, 'img NativeImagePrivate \<times> 'tex heap) outcome" where
  "NativeImageFetchFromRasterNoLock typeMan nativeImg raster nativeTexName h =
     (let (img1, h1) = clearImageData typeMan nativeImg h
      in case NativeImageFetchFromRaster_internal typeMan img1 raster nativeTexName False h1 of
           Undefined \<Rightarrow> Undefined
         | Thrown e (img2, h2) \<Rightarrow> Thrown e (img2, h2)
         | Returned needsRef (img2, h2) \<Rightarrow>
             Returned needsRef (img2\<lparr>externalRasterRef := True\<rparr>, h2))"

definition NativeImagePutToRaster_internal ::
  "('img, 'tex) nativeImageTypeManager \<Rightarrow> 'tex texNativeTypeProvider \<Rightarrow> 'img \<Rightarrow> raster_ptr
   \<Rightarrow> 'tex heap \<Rightarrow> (RwException, unit, 'img \<times> 'tex heap) outcome" where
  "NativeImagePutToRaster_internal typeMan prov nativeImageMem raster h =
     (case h raster of
        None \<Rightarrow> Undefined
      | Some R \<Rightarrow>
          (case platformData R of
             None \<Rightarrow> Thrown (RwException ''no raster native data'') (nativeImageMem, h)
           | Some nativeTex \<Rightarrow>
               (let nativeTexName = nativeTexTypeName prov nativeTex;
                    t1 = UnsetPixelDataFromTexture prov nativeTex True
                in case WriteToNativeTexture typeMan nativeImageMem nativeTexName t1 of
                     Undefined \<Rightarrow> Undefined
                   | Thrown e (d, t) \<Rightarrow>
                       Thrown (CodecException e) (d, h(raster \<mapsto> R\<lparr>platformData := Some t\<rparr>))
                   | Returned acquireFeedback (d, t) \<Rightarrow>
                       (let isPaletteDataRef = hasDirectlyAcquiredPalette acquireFeedback;
                            isMipmapDataRef = hasDirectlyAcquired acquireFeedback;
                            d1 = ClearPaletteData typeMan d (isPaletteDataRef = False);
                            d2 = ClearImageData typeMan d1 (isMipmapDataRef = False)
                        in Returned () (d2, h(raster \<mapsto> R\<lparr>platformData := Some t\<rparr>))))))"

definition AlreadyOwned :: RwException where
  "AlreadyOwned =
     RwException ''cannot move image data from NativeImage into Raster because image data is already owned by a raster''"

definition putToRaster ::
  "('img, 'tex) nativeImageTypeManager \<Rightarrow> 'tex texNativeTypeProvider \<Rightarrow> 'img NativeImagePrivate
   \<Rightarrow> raster_ptr \<Rightarrow> 'tex heap \<Rightarrow> (RwException, unit, 'img NativeImagePrivate \<times> 'tex heap) outcome" where
  "putToRaster typeMan prov nativeImg raster h =
     (if pixelOwner nativeImg \<noteq> None then Thrown AlreadyOwned (nativeImg, h)
      else case NativeImagePutToRaster_internal typeMan prov (nativeData nativeImg) raster h of
             Undefined \<Rightarrow> Undefined
           | Thrown e (d, h') \<Rightarrow> Thrown e (nativeImg\<lparr>nativeData := d\<rparr>, h')
           | Returned u (d, h') \<Rightarrow> Returned () (nativeImg\<lparr>nativeData := d\<rparr>, h'))"

text \<open>
  \<^verbatim>\<open>nativeImageTypeInterface::Destruct\<close>: the image data is cleared, then payload and handle
  are destroyed; what is left of the image is its effect on the heap.
\<close>

definition Destruct ::
  "('img, 'tex) nativeImageTypeManager \<Rightarrow> 'img NativeImagePrivate \<Rightarrow> 'tex heap \<Rightarrow> 'tex heap" where
  "Destruct typeMan natImg h = snd (clearImageData typeMan natImg h)"

section \<open>Byte streams\<close>

type_synonym byte = "8 word"

text \<open>
  Modelled from the spec: the \<^verbatim>\<open>Stream\<close> class is declared outside the source files.
  Section 4.B: read(buf, n) returns the number of bytes actually read, short reads are
  permitted; seek(off, BEG) sets the position; tell() and size() report position and
  length. A read delivers the bytes from the position on, at most \<open>n\<close> and at most what
  is left, and advances the position by what it delivered.
\<close>

record Stream =
  content :: "byte list"
  position :: nat

definition tell :: "Stream \<Rightarrow> nat" where
  "tell s = position s"

definition size_s :: "Stream \<Rightarrow> nat" where
  "size_s s = length (content s)"

definition seek_BEG :: "nat \<Rightarrow> Stream \<Rightarrow> Stream" where
  "seek_BEG off s = s\<lparr>position := off\<rparr>"

definition read_s :: "nat \<Rightarrow> Stream \<Rightarrow> byte list \<times> Stream" where
  "read_s n s =
     (let buf = take n (drop (position s) (content s))
      in (buf, s\<lparr>position := position s + length buf\<rparr>))"

section \<open>TIFF probe (rwimaging.tiff.cpp)\<close>

text \<open>
  \<^verbatim>\<open>tiff_number_format\<close>: a two- or four-byte field read as little or big endian. The
  values are kept as natural numbers, below \<open>2^16\<close> and \<open>2^32\<close>; the arithmetic of the
  probe on them is done by the source in 64 bits and does not wrap.
\<close>

definition get_uint16 :: "bool \<Rightarrow> byte list \<Rightarrow> nat" where
  "get_uint16 bigEndian num =
     (if bigEndian then 256 * unat (num ! 0) + unat (num ! 1)
      else unat (num ! 0) + 256 * unat (num ! 1))"

definition get_uint32 :: "bool \<Rightarrow> byte list \<Rightarrow> nat" where
  "get_uint32 bigEndian num =
     (if bigEndian
      then 16777216 * unat (num ! 0) + 65536 * unat (num ! 1) + 256 * unat (num ! 2) + unat (num ! 3)
      else unat (num ! 0) + 256 * unat (num ! 1) + 65536 * unat (num ! 2) + 16777216 * unat (num ! 3))"

text \<open>\<^verbatim>\<open>eTIFF_FieldType\<close> and the item size the probe knows for it (0: unknown type).\<close>

definition FIELD_BYTE :: nat where "FIELD_BYTE = 1"
definition FIELD_ASCII :: nat where "FIELD_ASCII = 2"
definition FIELD_SHORT :: nat where "FIELD_SHORT = 3"
definition FIELD_LONG :: nat where "FIELD_LONG = 4"
definition FIELD_RATIONAL :: nat where "FIELD_RATIONAL = 5"

definition field_item_size :: "nat \<Rightarrow> nat" where
  "field_item_size field_type =
     (if field_type = FIELD_BYTE then 1
      else if field_type = FIELD_ASCII then 1
      else if field_type = FIELD_SHORT then 2
      else if field_type = FIELD_LONG then 4
      else if field_type = FIELD_RATIONAL then 8
      else 0)"

text \<open>
  The check of one \<^verbatim>\<open>tiff_ifd_entry\<close> (tag, field_type, num_values, data_offset: 12 bytes)
  against \<^verbatim>\<open>tiff_size\<close>, the stream size less the position at which the probe started.
\<close>

definition ifd_entry_ok :: "bool \<Rightarrow> int \<Rightarrow> byte list \<Rightarrow> bool" where
  "ifd_entry_ok bigEndian tiff_size ifd_entry =
     (let sz = field_item_size (get_uint16 bigEndian (take 2 (drop 2 ifd_entry)))
      in if sz \<noteq> 0
         then (let numValues = get_uint32 bigEndian (take 4 (drop 4 ifd_entry));
                   actualDataSize = sz * numValues
               in if actualDataSize > 4
                  then (let data_start = get_uint32 bigEndian (take 4 (drop 8 ifd_entry))
                        in int (data_start + actualDataSize) \<le> tiff_size)
                  else True)
         else True)"

text \<open>The \<^verbatim>\<open>for\<close> loop over the entries of one directory; \<open>False\<close> when the probe bails out.\<close>

fun read_dir_entries :: "bool \<Rightarrow> int \<Rightarrow> nat \<Rightarrow> Stream \<Rightarrow> bool \<times> Stream" where
  "read_dir_entries bigEndian tiff_size 0 s = (True, s)"
| "read_dir_entries bigEndian tiff_size (Suc n) s =
     (let (ifd_entry, s1) = read_s 12 s
      in if length ifd_entry \<noteq> 12 then (False, s1)
         else if \<not> ifd_entry_ok bigEndian tiff_size ifd_entry then (False, s1)
         else read_dir_entries bigEndian tiff_size n s1)"

text \<open>
  The \<^verbatim>\<open>while ( true )\<close> loop over the directories. It is left by a \<^verbatim>\<open>return false\<close> or,
  on a zero next-IFD pointer, by the \<^verbatim>\<open>break\<close> that sets \<^verbatim>\<open>hasTerminatedProperly\<close> after
  \<^verbatim>\<open>didHaveAtleastOneIFD\<close> was set, so that the two checks after the loop pass. The loop
  need not end: \<open>None\<close> is a probe that never returns.
\<close>

partial_function (option) walk_ifds :: "bool \<Rightarrow> nat \<Rightarrow> int \<Rightarrow> Stream \<Rightarrow> (bool \<times> Stream) option" where
  "walk_ifds bigEndian tiff_start tiff_size s =
     (let (num_dir_entries, s1) = read_s 2 s
      in if length num_dir_entries \<noteq> 2 then Some (False, s1)
         else (let dirEntryCount = get_uint16 bigEndian num_dir_entries
               in if dirEntryCount = 0 then Some (False, s1)
                  else (let (entriesOk, s2) = read_dir_entries bigEndian tiff_size dirEntryCount s1
                        in if \<not> entriesOk then Some (False, s2)
                           else (let (next_ifd_pointer, s3) = read_s 4 s2
                                 in if length next_ifd_pointer \<noteq> 4 then Some (False, s3)
                                    else (let nextIFDPointer = get_uint32 bigEndian next_ifd_pointer
                                          in if nextIFDPointer = 0 then Some (True, s3)
                                             else walk_ifds bigEndian tiff_start tiff_size
                                                    (seek_BEG (tiff_start + nextIFDPointer) s3))))))"

definition IsStreamCompatible :: "Stream \<Rightarrow> (bool \<times> Stream) option" where
  "IsStreamCompatible inputStream =
     (let tiff_start = tell inputStream;
          tiff_size = int (size_s inputStream) - int tiff_start;
          (header, s1) = read_s 8 inputStream
      in if length header \<noteq> 8 then Some (False, s1)
         else if \<not> ((header ! 0 = 0x49 \<and> header ! 1 = 0x49) \<or> (header ! 0 = 0x4D \<and> header ! 1 = 0x4D))
              then Some (False, s1)
         else (let is_big_endian = (header ! 0 = 0x4D)
               in if get_uint16 is_big_endian (take 2 (drop 2 header)) \<noteq> 42 then Some (False, s1)
                  else (let imageFileDirectoryOffset = get_uint32 is_big_endian (take 4 (drop 4 header))
                        in walk_ifds is_big_endian tiff_start tiff_size
                             (seek_BEG (tiff_start + imageFileDirectoryOffset) s1))))"

section \<open>The registry of native image formats (natimage.cpp)\<close>

text \<open>
  What the registry reads and writes of a \<^verbatim>\<open>nativeImageTypeManager\<close>: its probe and its
  \<^verbatim>\<open>manData\<close>. \<open>imgType\<close> is the name of the type registered for the format
  (\<^verbatim>\<open>manData.imgType->name\<close>). A probe returns its verdict and the stream as it left it.
\<close>

record nativeImageFormat =
  IsStreamNativeImage :: "Stream \<Rightarrow> bool \<times> Stream"
  isRegistered :: bool
  imgType :: string
  friendlyName :: string
  fileExtensions :: "(string \<times> bool) list"
  suppNatTex :: "string list"

text \<open>
  A manager is an object of the plug-in that registers it, and the list node is a member
  of the manager (\<^verbatim>\<open>manData.node\<close>): the registry holds addresses of managers, and the
  managers themselves live in a store that registration writes to.
\<close>

type_synonym manager_ptr = nat

type_synonym manager_store = "manager_ptr \<Rightarrow> nativeImageFormat"

text \<open>
  \<^verbatim>\<open>nativeImageEnv\<close>: the base type of all native images (absent until the type system
  has constructed it), the names of the types registered under it, and the nodes linked
  to \<^verbatim>\<open>formatsList.root\<close>, in the order in which \<^verbatim>\<open>LIST_FOREACH_BEGIN\<close> visits them.
\<close>

record nativeImageEnv =
  natImgType :: bool
  typeNames :: "string list"
  formatsList :: "manager_ptr list"

text \<open>
  The body of the \<^verbatim>\<open>LIST_FOREACH\<close> loop of \<^verbatim>\<open>GetNativeImageTypeForStream\<close> and the
  clean-up after it.
\<close>

fun probeFormats ::
  "manager_store \<Rightarrow> manager_ptr list \<Rightarrow> nat \<Rightarrow> bool \<Rightarrow> Stream \<Rightarrow> string option \<times> Stream" where
  "probeFormats managers [] streamObjectPos needsReset stream =
     (None, if needsReset then seek_BEG streamObjectPos stream else stream)"
| "probeFormats managers (item # rest) streamObjectPos needsReset stream =
     (let stream1 = (if needsReset then seek_BEG streamObjectPos stream else stream);
          (isCompatible, stream2) = IsStreamNativeImage (managers item) stream1
      in if isCompatible then (Some (imgType (managers item)), seek_BEG streamObjectPos stream2)
         else probeFormats managers rest streamObjectPos True stream2)"

definition GetNativeImageTypeForStream ::
  "manager_store \<Rightarrow> nativeImageEnv option \<Rightarrow> Stream \<Rightarrow> string option \<times> Stream" where
  "GetNativeImageTypeForStream managers imgEnv stream =
     (case imgEnv of
        None \<Rightarrow> (None, stream)
      | Some env \<Rightarrow> probeFormats managers (formatsList env) (tell stream) False stream)"

text \<open>
  Modelled from the spec: \<^verbatim>\<open>RwTypeSystem::RegisterCommonTypeInterface\<close> is not among the
  source files. Section 4.D: it fails with a type-name conflict if the name already
  exists under the parent, and otherwise yields the new type.
\<close>

definition RegisterCommonTypeInterface :: "string \<Rightarrow> string list \<Rightarrow> (string \<times> string list) option" where
  "RegisterCommonTypeInterface typeName names =
     (if typeName \<in> set names then None else Some (typeName, names @ [typeName]))"

text \<open>
  \<^verbatim>\<open>RegisterNativeImageType\<close>. The list macros \<^verbatim>\<open>LIST_INSERT\<close> and \<^verbatim>\<open>LIST_FOREACH_BEGIN\<close>
  are not among the source files, and neither the source files nor the spec say where
  \<^verbatim>\<open>LIST_INSERT\<close> links a node. What the macro makes of the sequence of nodes that
  \<^verbatim>\<open>LIST_FOREACH_BEGIN\<close> visits is the parameter \<open>LIST_INSERT\<close>. The function writes the
  \<^verbatim>\<open>manData\<close> of the manager and links its node; it does not write \<^verbatim>\<open>isRegistered\<close>.
\<close>

definition RegisterNativeImageType ::
  "(manager_ptr list \<Rightarrow> manager_ptr \<Rightarrow> manager_ptr list) \<Rightarrow> manager_store \<Rightarrow> nativeImageEnv option
   \<Rightarrow> manager_ptr \<Rightarrow> string \<Rightarrow> string \<Rightarrow> (string \<times> bool) list \<Rightarrow> string list
   \<Rightarrow> bool \<times> nativeImageEnv option \<times> manager_store" where
  "RegisterNativeImageType LIST_INSERT managers imgEnv typeManager typeName friendlyName'
       fileExtensions' suppNatTex' =
     (case imgEnv of
        None \<Rightarrow> (False, imgEnv, managers)
      | Some env \<Rightarrow>
          (if isRegistered (managers typeManager) = False
           then (if natImgType env
                 then (case RegisterCommonTypeInterface typeName (typeNames env) of
                         None \<Rightarrow> (False, imgEnv, managers)
                       | Some (nativeImgType, names) \<Rightarrow>
                           (True,
                            Some (env\<lparr>typeNames := names,
                                      formatsList := LIST_INSERT (formatsList env) typeManager\<rparr>),
                            managers(typeManager :=
                              (managers typeManager)\<lparr>imgType := nativeImgType,
                                                      friendlyName := friendlyName',
                                                      fileExtensions := fileExtensions',
                                                      suppNatTex := suppNatTex'\<rparr>)))
                 else (False, imgEnv, managers))
           else (False, imgEnv, managers)))"

text \<open>
  A plug-in start-up: the registrations of a list of managers, one call of
  \<^verbatim>\<open>RegisterNativeImageType\<close> after the other, each with its manager, type name, friendly
  name, file extensions and supported native textures.
\<close>

type_synonym registration = "manager_ptr \<times> string \<times> string \<times> (string \<times> bool) list \<times> string list"

fun registerAll ::
  "(manager_ptr list \<Rightarrow> manager_ptr \<Rightarrow> manager_ptr list) \<Rightarrow> manager_store \<Rightarrow> nativeImageEnv option
   \<Rightarrow> registration list \<Rightarrow> nativeImageEnv option \<times> manager_store" where
  "registerAll LIST_INSERT managers imgEnv [] = (imgEnv, managers)"
| "registerAll LIST_INSERT managers imgEnv ((typeManager, typeName, friendly, exts, supp) # rest) =
     (let (success, imgEnv1, managers1) =
            RegisterNativeImageType LIST_INSERT managers imgEnv typeManager typeName friendly exts supp
      in registerAll LIST_INSERT managers1 imgEnv1 rest)"

section \<open>PowerVR native texture (txdwrite.pvr.cpp)\<close>

type_synonym uint32 = "32 word"

datatype eTexNativeCompatibility = RWTEXCOMPAT_NONE | RWTEXCOMPAT_MAYBE | RWTEXCOMPAT_ABSOLUTE

text \<open>
  The \<^verbatim>\<open>BlockProvider\<close> class is declared outside the source files; its methods that the
  probe calls are parameters. \<open>'b\<close> is the state of the input provider with the block
  contexts opened on it. Entering a context and reading may throw.
\<close>

record 'b BlockProvider =
  EnterContext :: "'b \<Rightarrow> (RwException, unit, 'b) outcome"
  LeaveContext :: "'b \<Rightarrow> 'b"
  getBlockID :: "'b \<Rightarrow> uint32"
  readUInt32 :: "'b \<Rightarrow> (RwException, uint32, 'b) outcome"

text \<open>
  \<^verbatim>\<open>CHUNK_STRUCT\<close> and \<^verbatim>\<open>PLATFORM_PVR\<close> are constants of headers outside the source
  files, hence parameters.
\<close>

definition IsCompatibleTextureBlock ::
  "'b BlockProvider \<Rightarrow> uint32 \<Rightarrow> uint32 \<Rightarrow> 'b \<Rightarrow> (RwException, eTexNativeCompatibility, 'b) outcome" where
  "IsCompatibleTextureBlock bp CHUNK_STRUCT PLATFORM_PVR inputProvider =
     (case EnterContext bp inputProvider of
        Undefined \<Rightarrow> Undefined
      | Thrown e b \<Rightarrow> Thrown e b
      | Returned u texNativeImageBlock \<Rightarrow>
          (if getBlockID bp texNativeImageBlock = CHUNK_STRUCT
           then (case readUInt32 bp texNativeImageBlock of
                   Undefined \<Rightarrow> Undefined
                 | Thrown e b \<Rightarrow> Thrown e (LeaveContext bp b)
                 | Returned platformDescriptor b \<Rightarrow>
                     Returned (if platformDescriptor = PLATFORM_PVR then RWTEXCOMPAT_ABSOLUTE
                               else RWTEXCOMPAT_NONE)
                       (LeaveContext bp b))
           else Returned RWTEXCOMPAT_NONE (LeaveContext bp texNativeImageBlock)))"

text \<open>
  The enumerations of the pixel format model are declared outside the source files; the
  enumerators that the source files name are listed, the others are gathered in a last
  constructor.
\<close>

datatype eRasterFormat =
  RASTER_DEFAULT | RASTER_888 | RASTER_8888 | RASTER_LUM | RASTER_LUM_ALPHA | RASTER_OTHER nat

datatype eColorOrdering = COLOR_RGBA | COLOR_OTHER nat

datatype ePaletteType = PALETTE_NONE | PALETTE_4BIT | PALETTE_8BIT | PALETTE_4BIT_LSB

datatype eCompressionType = RWCOMPRESS_NONE | RWCOMPRESS_OTHER nat

datatype ePVRInternalFormat =
  GL_COMPRESSED_RGB_PVRTC_4BPPV1_IMG
| GL_COMPRESSED_RGB_PVRTC_2BPPV1_IMG
| GL_COMPRESSED_RGBA_PVRTC_4BPPV1_IMG
| GL_COMPRESSED_RGBA_PVRTC_2BPPV1_IMG


text \<open>
  A mipmap layer, of a \<^verbatim>\<open>pixelDataTraversal\<close> (\<^verbatim>\<open>mipmapResource\<close>) and of a
  \<^verbatim>\<open>NativeTexturePVR\<close> (\<^verbatim>\<open>mipmapLayer\<close>) alike: both have these six fields.
\<close>

record mipmapLayer =
  width :: uint32
  height :: uint32
  layerWidth :: uint32
  layerHeight :: uint32
  texels :: "byte list"
  dataSize :: uint32

record pixelDataTraversal =
  mipmaps :: "mipmapLayer list"
  rasterFormat :: eRasterFormat
  depth :: uint32
  rowAlignment :: uint32
  colorOrder :: eColorOrdering
  paletteType :: ePaletteType
  paletteData :: "byte list"
  paletteSize :: uint32
  compressionType :: eCompressionType
  hasAlpha :: bool

record NativeTexturePVR =
  mipmaps :: "mipmapLayer list"
  internalFormat :: ePVRInternalFormat
  hasAlpha :: bool
  unk1 :: "8 word"
  unk8 :: uint32









definition UnsetPixelDataFromTexture_pvr :: "NativeTexturePVR \<Rightarrow> bool \<Rightarrow> NativeTexturePVR" where
  "UnsetPixelDataFromTexture_pvr nativeTex deallocate = nativeTex\<lparr>NativeTexturePVR.mipmaps := []\<rparr>"

section \<open>TIFF decoding: choice of the read path (rwimaging.tiff.cpp)\<close>

text \<open>The tag values of the TIFF format that \<^verbatim>\<open>DeserializeImage\<close> compares with.\<close>

definition PHOTOMETRIC_MINISWHITE :: nat where "PHOTOMETRIC_MINISWHITE = 0"
definition PHOTOMETRIC_MINISBLACK :: nat where "PHOTOMETRIC_MINISBLACK = 1"
definition PHOTOMETRIC_RGB :: nat where "PHOTOMETRIC_RGB = 2"
definition PHOTOMETRIC_PALETTE :: nat where "PHOTOMETRIC_PALETTE = 3"
definition ORIENTATION_TOPLEFT :: nat where "ORIENTATION_TOPLEFT = 1"

datatype eTIFF_ParseMode = TPARSEMODE_GRAYSCALE | TPARSEMODE_FULLCOLOR | TPARSEMODE_PALETTE

text \<open>The fields that \<^verbatim>\<open>DeserializeImage\<close> obtains from the TIFF library.\<close>

record tiff_fields =
  photometric_type :: nat
  image_width :: nat
  image_length :: nat
  bits_per_sample :: nat
  has_colormap :: bool
  num_extra_samples :: nat
  extra_sample_types :: "nat list"
  sample_count :: nat
  orientation :: nat

text \<open>The local variables that describe the destination and the TIFF layout.\<close>

record tiff_layouts =
  dstRasterFormat :: eRasterFormat
  dstDepth :: nat
  dstRowAlignment :: nat
  dstColorOrder :: eColorOrdering
  dstPaletteType :: ePaletteType
  dstPaletteSize :: nat
  tiffRasterFormat :: eRasterFormat
  tiffDepth :: nat
  tiffColorOrder :: eColorOrdering
  parseMode :: eTIFF_ParseMode
  hasKnownMapping :: bool

text \<open>
  Modelled from the spec: \<^verbatim>\<open>getPaletteItemCount\<close>, \<^verbatim>\<open>getRasterDataRowSize\<close> and
  \<^verbatim>\<open>doRawMipmapBuffersNeedConversion\<close> are declared in pixelformat.hxx, which is not among
  the source files. Section 4.A: 16 palette items for 4 bit and 256 for 8 bit; the row
  size is ceil(width * depth / 8) rounded up to the row alignment; raw buffers need
  conversion iff format, depth, colour order or palette type differ.
\<close>

definition getPaletteItemCount :: "ePaletteType \<Rightarrow> nat" where
  "getPaletteItemCount t =
     (case t of PALETTE_4BIT \<Rightarrow> 16 | PALETTE_4BIT_LSB \<Rightarrow> 16 | PALETTE_8BIT \<Rightarrow> 256 | PALETTE_NONE \<Rightarrow> 0)"

definition getRasterDataRowSize :: "nat \<Rightarrow> nat \<Rightarrow> nat \<Rightarrow> nat" where
  "getRasterDataRowSize planeWidth depth' alignment =
     (let bytes = (planeWidth * depth' + 7) div 8
      in if alignment = 0 then bytes else ((bytes + alignment - 1) div alignment) * alignment)"

definition doRawMipmapBuffersNeedConversion ::
  "eRasterFormat \<Rightarrow> nat \<Rightarrow> eColorOrdering \<Rightarrow> ePaletteType
   \<Rightarrow> eRasterFormat \<Rightarrow> nat \<Rightarrow> eColorOrdering \<Rightarrow> ePaletteType \<Rightarrow> bool" where
  "doRawMipmapBuffersNeedConversion srcFormat srcDepth srcOrder srcPalette
       dstFormat dstDepth' dstOrder dstPalette =
     (srcFormat \<noteq> dstFormat \<or> srcDepth \<noteq> dstDepth' \<or> srcOrder \<noteq> dstOrder \<or> srcPalette \<noteq> dstPalette)"

text \<open>
  The mapping to a raster format in \<^verbatim>\<open>DeserializeImage\<close>. \<^verbatim>\<open>dstDepth\<close>, \<^verbatim>\<open>tiffDepth\<close> and
  \<^verbatim>\<open>parseMode\<close> are declared without an initial value: what they hold until they are
  assigned is the parameter \<open>uninit\<close>.
\<close>

definition tiff_has_alpha_channel :: "tiff_fields \<Rightarrow> bool" where
  "tiff_has_alpha_channel f =
     (num_extra_samples f = 1 \<and> (extra_sample_types f ! 0 = 1 \<or> extra_sample_types f ! 0 = 2))"

definition selectLayouts :: "tiff_layouts \<Rightarrow> tiff_fields \<Rightarrow> tiff_layouts" where
  "selectLayouts uninit f =
     (let alpha = tiff_has_alpha_channel f;
          m0 = uninit\<lparr>dstRasterFormat := RASTER_DEFAULT, dstRowAlignment := 4,
                      dstColorOrder := COLOR_RGBA, dstPaletteType := PALETTE_NONE,
                      dstPaletteSize := 0, tiffRasterFormat := RASTER_DEFAULT,
                      tiffColorOrder := COLOR_RGBA\<rparr>;
          m1 =
            (if orientation f = ORIENTATION_TOPLEFT
             then (if photometric_type f = PHOTOMETRIC_MINISWHITE \<or> photometric_type f = PHOTOMETRIC_MINISBLACK
                   then (if bits_per_sample f = 4 \<or> bits_per_sample f = 8
                         then (if num_extra_samples f = 0 \<or> alpha
                               then (let m =
                                       (if alpha
                                        then (let ma = m0\<lparr>dstRasterFormat := RASTER_LUM_ALPHA, dstDepth := 16\<rparr>
                                              in if photometric_type f = PHOTOMETRIC_MINISBLACK
                                                 then ma\<lparr>tiffRasterFormat := RASTER_LUM_ALPHA,
                                                         tiffDepth := bits_per_sample f * 2\<rparr>
                                                 else ma)
                                        else (let ml = m0\<lparr>dstRasterFormat := RASTER_LUM, dstDepth := 8\<rparr>
                                              in if photometric_type f = PHOTOMETRIC_MINISBLACK
                                                 then ml\<lparr>tiffRasterFormat := RASTER_LUM,
                                                         tiffDepth := bits_per_sample f\<rparr>
                                                 else ml))
                                     in m\<lparr>parseMode := TPARSEMODE_GRAYSCALE\<rparr>)
                               else m0)
                         else m0)
                   else if photometric_type f = PHOTOMETRIC_RGB
                   then (if bits_per_sample f = 8
                         then (if num_extra_samples f = 0 \<or> alpha
                               then (let m =
                                       (if alpha
                                        then m0\<lparr>dstRasterFormat := RASTER_8888, dstDepth := 32,
                                                tiffRasterFormat := RASTER_8888, tiffDepth := 8\<rparr>
                                        else m0\<lparr>dstRasterFormat := RASTER_888, dstDepth := 24,
                                                tiffRasterFormat := RASTER_888, tiffDepth := 24\<rparr>)
                                     in m\<lparr>parseMode := TPARSEMODE_FULLCOLOR\<rparr>)
                               else m0)
                         else m0)
                   else if photometric_type f = PHOTOMETRIC_PALETTE
                   then (if bits_per_sample f = 4 \<or> bits_per_sample f = 8
                         then (if has_colormap f
                               then (if num_extra_samples f = 0
                                     then (let pt = (if bits_per_sample f = 4 then PALETTE_4BIT else PALETTE_8BIT)
                                           in m0\<lparr>dstRasterFormat := RASTER_888,
                                                  dstDepth := bits_per_sample f,
                                                  dstPaletteType := pt,
                                                  dstPaletteSize := getPaletteItemCount pt,
                                                  parseMode := TPARSEMODE_PALETTE,
                                                  tiffRasterFormat := RASTER_888, tiffDepth := 24\<rparr>)
                                     else m0)
                               else m0)
                         else m0)
                   else m0)
             else m0)
      in if dstRasterFormat m1 = RASTER_DEFAULT
         then m1\<lparr>dstRasterFormat := RASTER_8888, dstDepth := 32, dstColorOrder := tiffColorOrder m1,
                 parseMode := TPARSEMODE_FULLCOLOR, hasKnownMapping := False\<rparr>
         else m1\<lparr>hasKnownMapping := True\<rparr>)"

text \<open>
  The flag \<^verbatim>\<open>canTexelsDirectlyAcquire\<close> of the known-mapping branch, from the scanline size
  that the TIFF library reports: when it holds the scanlines are read into the
  destination buffer, otherwise into a scanline buffer and converted item by item.
  \<^verbatim>\<open>dstRowSize\<close> is a \<^verbatim>\<open>uint32\<close> variable: it holds the row size modulo \<open>2 ^ 32\<close>, and
  the scanline size, of the wider type \<^verbatim>\<open>tmsize_t\<close>, is compared with that.
\<close>

definition canTexelsDirectlyAcquire :: "nat \<Rightarrow> tiff_fields \<Rightarrow> tiff_layouts \<Rightarrow> bool" where
  "canTexelsDirectlyAcquire scanline_size f m =
     (let dstRowSize = getRasterDataRowSize (image_width f) (dstDepth m) (dstRowAlignment m) mod 2 ^ 32
      in if scanline_size = dstRowSize
         then (if dstPaletteType m = PALETTE_NONE
               then doRawMipmapBuffersNeedConversion
                      (tiffRasterFormat m) (tiffDepth m) (tiffColorOrder m) PALETTE_NONE
                      (dstRasterFormat m) (dstDepth m) (dstColorOrder m) PALETTE_NONE
               else True)
         else False)"

text \<open>
  The flag \<^verbatim>\<open>canDirectlyWrite\<close> of \<^verbatim>\<open>SerializeImage\<close> for a source without palette, the
  counterpart of the flag above on the encoding side.
\<close>

definition canDirectlyWrite ::
  "eRasterFormat \<Rightarrow> nat \<Rightarrow> eColorOrdering \<Rightarrow> ePaletteType \<Rightarrow> nat
   \<Rightarrow> eRasterFormat \<Rightarrow> nat \<Rightarrow> eColorOrdering \<Rightarrow> nat \<Rightarrow> bool" where
  "canDirectlyWrite srcRasterFormat srcDepth srcColorOrder srcPaletteType srcRowSize
       tiffRasterFormat' tiffDepth' tiffColorOrder' tiffRowSize =
     (doRawMipmapBuffersNeedConversion srcRasterFormat srcDepth srcColorOrder srcPaletteType
        tiffRasterFormat' tiffDepth' tiffColorOrder' PALETTE_NONE = False
      \<and> tiffRowSize = srcRowSize)"

section \<open>Const-references held by an image\<close>

text \<open>
  Section 3 of the spec: an image whose \<^verbatim>\<open>pixelOwner\<close> is set and whose
  \<^verbatim>\<open>externalRasterRef\<close> is false holds one const-reference on that raster; in any other
  state it is accountable for none.
\<close>

definition constRefsHeld :: "'img NativeImagePrivate \<Rightarrow> raster_ptr \<Rightarrow> int" where
  "constRefsHeld img p = (if pixelOwner img = Some p \<and> \<not> externalRasterRef img then 1 else 0)"

section \<open>Example objects\<close>

text \<open>
  A raster with a PowerVR texture of one layer, a raster without native data, and a codec
  that borrows the texels of a texture on reading and refuses to write.
\<close>

definition exampleLayer :: mipmapLayer where
  "exampleLayer = \<lparr>width = 8, height = 8, layerWidth = 8, layerHeight = 8, texels = [1, 2, 3, 4], dataSize = 4\<rparr>"

definition exampleTexture :: NativeTexturePVR where
  "exampleTexture =
     \<lparr>NativeTexturePVR.mipmaps = [exampleLayer], internalFormat = GL_COMPRESSED_RGBA_PVRTC_4BPPV1_IMG,
      NativeTexturePVR.hasAlpha = True, unk1 = 0, unk8 = 0\<rparr>"

definition exampleProvider :: "NativeTexturePVR texNativeTypeProvider" where
  "exampleProvider =
     \<lparr>nativeTexTypeName = (\<lambda>t. ''PowerVR''), getNativeDataTypeName = (\<lambda>t. Inr ''PowerVR''),
      UnsetPixelDataFromTexture = UnsetPixelDataFromTexture_pvr\<rparr>"

definition exampleCodec :: "(byte list list, NativeTexturePVR) nativeImageTypeManager" where
  "exampleCodec =
     \<lparr>ReadFromNativeTexture =
        (\<lambda>d name t. Returned \<lparr>hasDirectlyAcquired = True, hasDirectlyAcquiredPalette = False\<rparr>
                       (map texels (NativeTexturePVR.mipmaps t), t)),
      WriteToNativeTexture = (\<lambda>d name t. Thrown ''native texture type not supported'' (d, t)),
      ClearPaletteData = (\<lambda>d free. d),
      ClearImageData = (\<lambda>d free. [])\<rparr>"

definition exampleRaster :: "NativeTexturePVR Raster" where
  "exampleRaster = \<lparr>refCount = 1, constRefCount = 0, platformData = Some exampleTexture\<rparr>"

definition emptyRaster :: "NativeTexturePVR Raster" where
  "emptyRaster = \<lparr>refCount = 1, constRefCount = 0, platformData = None\<rparr>"

definition exampleHeap :: "NativeTexturePVR heap" where
  "exampleHeap = [1 \<mapsto> emptyRaster, 0 \<mapsto> exampleRaster]"

definition borrowedImage :: "byte list list NativeImagePrivate" where
  "borrowedImage =
     \<lparr>hasPaletteDataRef = False, hasPixelDataRef = True, pixelOwner = Some 0,
      externalRasterRef = False, nativeData = [[1, 2, 3, 4]]\<rparr>"

definition borrowedHeap :: "NativeTexturePVR heap" where
  "borrowedHeap = [1 \<mapsto> emptyRaster, 0 \<mapsto> exampleRaster\<lparr>refCount := 2, constRefCount := 1\<rparr>]"

definition emptiedHeap :: "NativeTexturePVR heap" where
  "emptiedHeap =
     [1 \<mapsto> emptyRaster,
      0 \<mapsto> exampleRaster\<lparr>platformData := Some (exampleTexture\<lparr>NativeTexturePVR.mipmaps := []\<rparr>)\<rparr>]"

definition externalImage :: "byte list list NativeImagePrivate" where
  "externalImage = borrowedImage\<lparr>externalRasterRef := True\<rparr>"

text \<open>
  Three managers whose probes compare the first bytes of the stream with a magic number,
  their registrations in the order DDS, PVR, PVRLegacy, the registry and the store after
  these registrations when \<^verbatim>\<open>LIST_INSERT\<close> links a node behind the nodes linked before it
  (\<open>linkLast\<close>), and a stream positioned at the magic number of the second manager, which
  the third accepts as well.
\<close>

definition magicProbe :: "byte list \<Rightarrow> Stream \<Rightarrow> bool \<times> Stream" where
  "magicProbe magic s = (let (buf, s1) = read_s (length magic) s in (buf = magic, s1))"

definition exampleFormat :: "byte list \<Rightarrow> nativeImageFormat" where
  "exampleFormat magic =
     \<lparr>IsStreamNativeImage = magicProbe magic, isRegistered = False, imgType = [],
      friendlyName = [], fileExtensions = [], suppNatTex = []\<rparr>"

definition ddsMagic :: "byte list" where "ddsMagic = [0x44, 0x44, 0x53, 0x20]"
definition pvrMagic :: "byte list" where "pvrMagic = [0x50, 0x56, 0x52, 0x03]"
definition pvrLegacyMagic :: "byte list" where "pvrLegacyMagic = [0x50, 0x56, 0x52]"

definition exampleManagers :: manager_store where
  "exampleManagers =
     (\<lambda>p. exampleFormat (if p = 0 then ddsMagic else if p = 1 then pvrMagic else pvrLegacyMagic))"

definition exampleRegistrations :: "registration list" where
  "exampleRegistrations =
     [(0, ''DDS'', ''DirectDraw Surface'', [], []),
      (1, ''PVR'', ''PowerVR Image'', [], []),
      (2, ''PVRLegacy'', ''PowerVR Legacy Image'', [], [])]"


definition linkFirst :: "manager_ptr list \<Rightarrow> manager_ptr \<Rightarrow> manager_ptr list" where
  "linkFirst root node = node # root"

definition emptyEnv :: nativeImageEnv where
  "emptyEnv = \<lparr>natImgType = True, typeNames = [], formatsList = []\<rparr>"

definition exampleEnv :: nativeImageEnv where
  "exampleEnv = \<lparr>natImgType = True, typeNames = [''DDS'', ''PVR'', ''PVRLegacy''], formatsList = [0, 1, 2]\<rparr>"

definition registeredManagers :: manager_store where
  "registeredManagers =
     exampleManagers
       (0 := (exampleFormat ddsMagic)\<lparr>imgType := ''DDS'', friendlyName := ''DirectDraw Surface''\<rparr>,
        1 := (exampleFormat pvrMagic)\<lparr>imgType := ''PVR'', friendlyName := ''PowerVR Image''\<rparr>,
        2 := (exampleFormat pvrLegacyMagic)\<lparr>imgType := ''PVRLegacy'',
                                              friendlyName := ''PowerVR Legacy Image''\<rparr>)"

definition pvrStream :: Stream where
  "pvrStream = \<lparr>content = [0, 0, 0x50, 0x56, 0x52, 0x03, 1, 2], position = 2\<rparr>"

text \<open>
  A little-endian TIFF of 26 bytes: the header, one directory at offset 8 with one entry
  (tag 256, type SHORT, count 1), and the pointer to the next directory: null in
  \<open>validTiff\<close>, 8 in \<open>cyclicTiff\<close>, whose only directory is its own successor.
\<close>

definition tiffHeader :: "byte list" where
  "tiffHeader = [0x49, 0x49, 0x2A, 0x00, 0x08, 0x00, 0x00, 0x00]"

definition tiffDirectory :: "byte list" where
  "tiffDirectory = [0x01, 0x00,  0x00, 0x01, 0x03, 0x00, 0x01, 0x00, 0x00, 0x00, 0x01, 0x00, 0x00, 0x00]"

definition validTiff :: Stream where
  "validTiff = \<lparr>content = tiffHeader @ tiffDirectory @ [0x00, 0x00, 0x00, 0x00], position = 0\<rparr>"

definition cyclicTiff :: Stream where
  "cyclicTiff = \<lparr>content = tiffHeader @ tiffDirectory @ [0x08, 0x00, 0x00, 0x00], position = 0\<rparr>"

definition shortStream :: Stream where
  "shortStream = \<lparr>content = [0x49, 0x49, 0x2A], position = 0\<rparr>"

text \<open>
  What section 4.G.1 of the spec asks of the header, on the eight bytes at the position of
  the stream: all eight are there, the byte order is 0x4949 or 0x4D4D, and the 16-bit field
  after it, read in that byte order, is 42.
\<close>

definition tiff_header_accepted :: "Stream \<Rightarrow> bool" where
  "tiff_header_accepted s =
     (let header = take 8 (drop (position s) (content s))
      in length header = 8
         \<and> ((header ! 0 = 0x49 \<and> header ! 1 = 0x49 \<and> unat (header ! 2) + 256 * unat (header ! 3) = 42)
            \<or> (header ! 0 = 0x4D \<and> header ! 1 = 0x4D \<and> 256 * unat (header ! 2) + unat (header ! 3) = 42)))"

text \<open>
  An example of a block reader: a block with an identifier and a payload, whose header may
  be missing; reading past the end of the payload throws.
\<close>

record exampleBlock =
  headerPresent :: bool
  blockID :: uint32
  payload :: "byte list"
  cursor :: nat
  contexts :: nat

definition exampleBlockProvider :: "exampleBlock BlockProvider" where
  "exampleBlockProvider =
     \<lparr>EnterContext =
        (\<lambda>b. if headerPresent b then Returned () (b\<lparr>contexts := contexts b + 1\<rparr>)
              else Thrown (RwException ''no block header'') b),
      LeaveContext = (\<lambda>b. b\<lparr>contexts := contexts b - 1\<rparr>),
      getBlockID = blockID,
      readUInt32 =
        (\<lambda>b. let buf = take 4 (drop (cursor b) (payload b))
              in if length buf = 4
                 then Returned (of_nat (get_uint32 False buf)) (b\<lparr>cursor := cursor b + 4\<rparr>)
                 else Thrown (RwException ''end of block'') b)\<rparr>"

definition structBlock :: "byte list \<Rightarrow> exampleBlock" where
  "structBlock bytes = \<lparr>headerPresent = True, blockID = 1, payload = bytes, cursor = 0, contexts = 0\<rparr>"

text \<open>
  The fields of a TIFF of four RGB pixels in a row: 8 bits per sample, three samples, no
  extra sample, orientation top-left. Its scanline has 12 bytes.
\<close>

definition rgbFields :: tiff_fields where
  "rgbFields =
     \<lparr>photometric_type = PHOTOMETRIC_RGB, image_width = 4, image_length = 1, bits_per_sample = 8,
      has_colormap = False, num_extra_samples = 0, extra_sample_types = [], sample_count = 3,
      orientation = ORIENTATION_TOPLEFT\<rparr>"

text \<open>Some content of the layout variables before they are assigned.\<close>

definition unassignedLayouts :: tiff_layouts where
  "unassignedLayouts =
     \<lparr>dstRasterFormat = RASTER_OTHER 7, dstDepth = 77, dstRowAlignment = 7,
      dstColorOrder = COLOR_OTHER 7, dstPaletteType = PALETTE_8BIT, dstPaletteSize = 7,
      tiffRasterFormat = RASTER_OTHER 7, tiffDepth = 77, tiffColorOrder = COLOR_OTHER 7,
      parseMode = TPARSEMODE_PALETTE, hasKnownMapping = False\<rparr>"








section \<open>The TIFF probe as the spec states it\<close>

text \<open>
  The conditions of section 4.G.1 of the spec, in its words, to compare the probe with.
  An entry of a known field type (BYTE, ASCII, SHORT, LONG, RATIONAL, of item sizes 1, 1, 2,
  4, 8) passes when count times item size is at most 4 or data offset plus count times
  item size is at most the stream size; the stream size is counted from where the TIFF
  starts. A directory at a position is a 16-bit entry count that is not zero, that many
  entries of 12 bytes that all pass, and a 32-bit pointer, each read in full. The chain
  from a position is accepted when its directories are and it ends in a null pointer.
\<close>

definition spec_entry_ok :: "bool \<Rightarrow> int \<Rightarrow> byte list \<Rightarrow> bool" where
  "spec_entry_ok bigEndian streamSize entry =
     (let ty = get_uint16 bigEndian (take 2 (drop 2 entry));
          count = get_uint32 bigEndian (take 4 (drop 4 entry));
          data_offset = get_uint32 bigEndian (take 4 (drop 8 entry))
      in if 1 \<le> ty \<and> ty \<le> 5
         then (let itemSize = [1, 1, 2, 4, 8] ! (ty - 1)
               in count * itemSize \<le> 4 \<or> int (data_offset + count * itemSize) \<le> streamSize)
         else True)"

definition spec_directory :: "bool \<Rightarrow> int \<Rightarrow> byte list \<Rightarrow> nat \<Rightarrow> nat \<Rightarrow> bool" where
  "spec_directory bigEndian streamSize bytes pos n =
     (length (take 2 (drop pos bytes)) = 2
      \<and> n = get_uint16 bigEndian (take 2 (drop pos bytes))
      \<and> n \<noteq> 0
      \<and> (\<forall>i<n. length (take 12 (drop (pos + 2 + 12 * i) bytes)) = 12
                 \<and> spec_entry_ok bigEndian streamSize (take 12 (drop (pos + 2 + 12 * i) bytes)))
      \<and> length (take 4 (drop (pos + 2 + 12 * n) bytes)) = 4)"

inductive spec_ifd_chain :: "bool \<Rightarrow> nat \<Rightarrow> int \<Rightarrow> byte list \<Rightarrow> nat \<Rightarrow> bool"
  for bigEndian tiff_start streamSize bytes where
  last_directory:
    "spec_directory bigEndian streamSize bytes pos n \<Longrightarrow>
     get_uint32 bigEndian (take 4 (drop (pos + 2 + 12 * n) bytes)) = 0 \<Longrightarrow>
     spec_ifd_chain bigEndian tiff_start streamSize bytes pos"
| next_directory:
    "spec_directory bigEndian streamSize bytes pos n \<Longrightarrow>
     get_uint32 bigEndian (take 4 (drop (pos + 2 + 12 * n) bytes)) \<noteq> 0 \<Longrightarrow>
     spec_ifd_chain bigEndian tiff_start streamSize bytes
       (tiff_start + get_uint32 bigEndian (take 4 (drop (pos + 2 + 12 * n) bytes))) \<Longrightarrow>
     spec_ifd_chain bigEndian tiff_start streamSize bytes pos"

definition spec_tiff_accepted :: "Stream \<Rightarrow> bool" where
  "spec_tiff_accepted s =
     (tiff_header_accepted s
      \<and> (let header = take 8 (drop (position s) (content s));
              bigEndian = (header ! 0 = 0x4D)
          in spec_ifd_chain bigEndian (position s) (int (length (content s)) - int (position s))
               (content s) (position s + get_uint32 bigEndian (take 4 (drop 4 header)))))"

section \<open>Properties of the NativeImage operations\<close>

lemma clearImageData_fields:
  "clearImageData typeMan img h = (img', h') \<Longrightarrow>
     hasPaletteDataRef img' = False \<and> hasPixelDataRef img' = False \<and> pixelOwner img' = None
     \<and> externalRasterRef img' = False"
  by (auto simp: clearImageData_def Let_def split: option.splits)

lemma clearImageData_accounting:
  "clearImageData typeMan img h = (img', h') \<Longrightarrow> h' p = Some R' \<Longrightarrow>
     \<exists>R. h p = Some R \<and> constRefCount R' - constRefsHeld img' p = constRefCount R - constRefsHeld img p
         \<and> platformData R' = platformData R"
  by (auto simp: clearImageData_def Let_def constRefsHeld_def remConstRef_def DeleteRaster_def
           split: option.splits if_splits)

lemma internal_Returned:
  "NativeImageFetchFromRaster_internal typeMan img1 r name nr h2 = Returned nr' (img2, h3) \<Longrightarrow>
   pixelOwner img1 = None \<Longrightarrow>
     (\<forall>p R'. h3 p = Some R' \<longrightarrow> (\<exists>R. h2 p = Some R \<and> constRefCount R' = constRefCount R))
     \<and> ((pixelOwner img2 = Some r \<and> nr' = True) \<or> (pixelOwner img2 = None \<and> nr' = nr))
     \<and> externalRasterRef img2 = externalRasterRef img1"
  by (auto simp: NativeImageFetchFromRaster_internal_def Let_def AcquireRaster_def
           split: option.splits outcome.splits if_splits prod.splits)

lemma internal_Thrown:
  "NativeImageFetchFromRaster_internal typeMan img1 r name nr h2 = Thrown e (img2, h3) \<Longrightarrow>
     (\<forall>p R'. h3 p = Some R' \<longrightarrow> (\<exists>R. h2 p = Some R \<and> constRefCount R' = constRefCount R))
     \<and> pixelOwner img2 = pixelOwner img1
     \<and> externalRasterRef img2 = externalRasterRef img1
     \<and> hasPaletteDataRef img2 = hasPaletteDataRef img1
     \<and> hasPixelDataRef img2 = hasPixelDataRef img1"
  by (auto simp: NativeImageFetchFromRaster_internal_def Let_def AcquireRaster_def
           split: option.splits outcome.splits if_splits prod.splits)

lemma addConstRef_Some:
  "addConstRef r h p = Some R' \<Longrightarrow>
     \<exists>R. h p = Some R \<and> constRefCount R' = constRefCount R + (if p = r then 1 else 0)"
  by (auto simp: addConstRef_def split: option.splits if_splits)

lemma remConstRef_Some:
  "remConstRef r h p = Some R' \<Longrightarrow>
     \<exists>R. h p = Some R \<and> constRefCount R' = constRefCount R - (if p = r then 1 else 0)"
  by (auto simp: remConstRef_def Let_def split: option.splits if_splits)

lemma fetchFromRaster_Thrown_fields:
  "fetchFromRaster typeMan prov nativeImg raster h = Thrown e (img', h') \<Longrightarrow>
     hasPaletteDataRef img' = False \<and> hasPixelDataRef img' = False \<and> pixelOwner img' = None
     \<and> externalRasterRef img' = False"
  apply (simp add: fetchFromRaster_def Let_def split: prod.splits option.splits sum.splits outcome.splits)
  apply (auto dest!: clearImageData_fields internal_Thrown)
  done

lemma fetchFromRaster_Thrown_cases:
  assumes "fetchFromRaster typeMan prov nativeImg raster h = Thrown e (img', h')"
      and c: "clearImageData typeMan nativeImg h = (img1, h1)"
  shows "(\<exists>R. addConstRef raster h1 raster = Some R \<and> img' = img1
              \<and> getNativeDataTypeName prov (platformData R) = Inl e
              \<and> h' = remConstRef raster (addConstRef raster h1))
       \<or> (\<exists>R name h3. addConstRef raster h1 raster = Some R
              \<and> getNativeDataTypeName prov (platformData R) = Inr name
              \<and> NativeImageFetchFromRaster_internal typeMan img1 raster name False (addConstRef raster h1)
                   = Thrown e (img', h3)
              \<and> h' = remConstRef raster h3)"
  using assms
  by (auto simp: fetchFromRaster_def Let_def split: option.splits sum.splits outcome.splits)

lemma fetchFromRaster_Returned_cases:
  assumes "fetchFromRaster typeMan prov nativeImg raster h = Returned u (img', h')"
      and c: "clearImageData typeMan nativeImg h = (img1, h1)"
  shows "\<exists>R name needsRef img2 h3. addConstRef raster h1 raster = Some R
              \<and> getNativeDataTypeName prov (platformData R) = Inr name
              \<and> NativeImageFetchFromRaster_internal typeMan img1 raster name False (addConstRef raster h1)
                   = Returned needsRef (img2, h3)
              \<and> img' = img2\<lparr>externalRasterRef := False\<rparr>
              \<and> h' = (if \<not> needsRef then remConstRef raster h3 else h3)"
  using assms
  by (auto simp: fetchFromRaster_def Let_def split: option.splits sum.splits outcome.splits)

lemma fetchFromRaster_accounting_Thrown:
  assumes f: "fetchFromRaster typeMan prov nativeImg raster h = Thrown e (img', h')"
      and p: "h' p = Some R'"
  shows "\<exists>R. h p = Some R \<and> constRefCount R' - constRefsHeld img' p = constRefCount R - constRefsHeld nativeImg p"
proof -
  obtain img1 h1 where c: "clearImageData typeMan nativeImg h = (img1, h1)" by fastforce
  from fetchFromRaster_Thrown_fields[OF f] have held': "constRefsHeld img' p = 0"
    by (simp add: constRefsHeld_def)
  from clearImageData_fields[OF c] have held1: "constRefsHeld img1 p = 0"
    by (simp add: constRefsHeld_def)
  have "\<exists>R1. h1 p = Some R1 \<and> constRefCount R' = constRefCount R1"
    using fetchFromRaster_Thrown_cases[OF f c]
  proof (elim disjE exE conjE)
    fix R
    assume "h' = remConstRef raster (addConstRef raster h1)"
    with p show ?thesis
      by (auto dest!: remConstRef_Some addConstRef_Some split: if_splits)
  next
    fix R name h3
    assume i: "NativeImageFetchFromRaster_internal typeMan img1 raster name False (addConstRef raster h1)
                   = Thrown e (img', h3)"
       and h': "h' = remConstRef raster h3"
    from p h' obtain Ra where ra: "h3 p = Some Ra" "constRefCount R' = constRefCount Ra - (if p = raster then 1 else 0)"
      by (auto dest!: remConstRef_Some)
    from internal_Thrown[OF i] ra(1) obtain Rb where rb: "addConstRef raster h1 p = Some Rb" "constRefCount Ra = constRefCount Rb"
      by blast
    from addConstRef_Some[OF rb(1)] ra rb show ?thesis by auto
  qed
  then obtain R1 where r1: "h1 p = Some R1" "constRefCount R' = constRefCount R1" by blast
  from clearImageData_accounting[OF c r1(1)] r1 held' held1 show ?thesis by auto
qed

lemma fetchFromRaster_accounting_Returned:
  assumes f: "fetchFromRaster typeMan prov nativeImg raster h = Returned u (img', h')"
      and p: "h' p = Some R'"
  shows "\<exists>R. h p = Some R \<and> constRefCount R' - constRefsHeld img' p = constRefCount R - constRefsHeld nativeImg p"
proof -
  obtain img1 h1 where c: "clearImageData typeMan nativeImg h = (img1, h1)" by fastforce
  from clearImageData_fields[OF c] have held1: "constRefsHeld img1 p = 0" and po1: "pixelOwner img1 = None"
    by (simp_all add: constRefsHeld_def)
  from fetchFromRaster_Returned_cases[OF f c] obtain R name needsRef img2 h3 where
      i: "NativeImageFetchFromRaster_internal typeMan img1 raster name False (addConstRef raster h1)
                   = Returned needsRef (img2, h3)"
      and img': "img' = img2\<lparr>externalRasterRef := False\<rparr>"
      and h': "h' = (if \<not> needsRef then remConstRef raster h3 else h3)"
    by blast
  note ir = internal_Returned[OF i po1]
  from p h' obtain Ra where ra: "h3 p = Some Ra"
      "constRefCount R' = constRefCount Ra - (if p = raster \<and> \<not> needsRef then 1 else 0)"
    by (auto dest!: remConstRef_Some split: if_splits)
  from ir ra(1) obtain Rb where rb: "addConstRef raster h1 p = Some Rb" "constRefCount Ra = constRefCount Rb"
    by blast
  from addConstRef_Some[OF rb(1)] obtain R1 where r1: "h1 p = Some R1"
      "constRefCount Rb = constRefCount R1 + (if p = raster then 1 else 0)" by blast
  from ir have "(pixelOwner img2 = Some raster \<and> needsRef) \<or> (pixelOwner img2 = None \<and> \<not> needsRef)" by auto
  then have held': "constRefsHeld img' p = (if p = raster \<and> needsRef then 1 else 0)"
    using img' by (auto simp: constRefsHeld_def)
  from clearImageData_accounting[OF c r1(1)] r1 ra rb held' held1 show ?thesis by (auto split: if_splits)
qed

lemmas example_defs = exampleLayer_def exampleTexture_def exampleProvider_def exampleCodec_def
  exampleRaster_def emptyRaster_def exampleHeap_def borrowedImage_def borrowedHeap_def

lemma example_fetch:
  "fetchFromRaster exampleCodec exampleProvider (NativeImagePrivate_new []) 0 exampleHeap
     = Returned () (borrowedImage, borrowedHeap)"
  by (simp add: fetchFromRaster_def clearImageData_def NativeImagePrivate_new_def Let_def
        addConstRef_def remConstRef_def AcquireRaster_def NativeImageFetchFromRaster_internal_def
        example_defs)

lemma example_destruct:
  "Destruct exampleCodec borrowedImage borrowedHeap = exampleHeap"
  by (simp add: Destruct_def clearImageData_def Let_def remConstRef_def DeleteRaster_def example_defs)

lemma fetch_scenario:
  assumes hr: "h raster = Some R0" and rc: "0 < refCount R0" and pd: "platformData R0 = Some t"
      and nm: "getNativeDataTypeName prov (Some t) = Inr name"
      and rd: "ReadFromNativeTexture typeMan (ClearImageData typeMan (ClearPaletteData typeMan d True) True) name t
                 = Returned fb (d', t')"
      and fb: "hasDirectlyAcquired fb"
  shows "\<exists>img1 h1 R1 R2. fetchFromRaster typeMan prov (NativeImagePrivate_new d) raster h = Returned () (img1, h1)
           \<and> pixelOwner img1 = Some raster \<and> \<not> externalRasterRef img1
           \<and> h1 raster = Some R1 \<and> constRefCount R1 = constRefCount R0 + 1
           \<and> Destruct typeMan img1 h1 raster = Some R2 \<and> constRefCount R2 = constRefCount R0"
  using assms
  by (simp add: fetchFromRaster_def clearImageData_def NativeImagePrivate_new_def Let_def
        addConstRef_def remConstRef_def AcquireRaster_def NativeImageFetchFromRaster_internal_def
        Destruct_def DeleteRaster_def)

lemma NoLock_accounting:
  assumes f: "NativeImageFetchFromRasterNoLock typeMan nativeImg raster name h = Returned u (img', h')
              \<or> NativeImageFetchFromRasterNoLock typeMan nativeImg raster name h = Thrown e (img', h')"
      and p: "h' p = Some R'"
  shows "\<exists>R. h p = Some R \<and> constRefCount R' - constRefsHeld img' p = constRefCount R - constRefsHeld nativeImg p"
proof -
  obtain img1 h1 where c: "clearImageData typeMan nativeImg h = (img1, h1)" by fastforce
  from clearImageData_fields[OF c] have po1: "pixelOwner img1 = None" by simp
  have "(\<exists>R1. h1 p = Some R1 \<and> constRefCount R' = constRefCount R1) \<and> constRefsHeld img' p = 0"
    using f
  proof
    assume "NativeImageFetchFromRasterNoLock typeMan nativeImg raster name h = Returned u (img', h')"
    with c obtain img2 where
      i: "NativeImageFetchFromRaster_internal typeMan img1 raster name False h1 = Returned u (img2, h')"
      and img': "img' = img2\<lparr>externalRasterRef := True\<rparr>"
      by (auto simp: NativeImageFetchFromRasterNoLock_def split: outcome.splits)
    from internal_Returned[OF i po1] p img' show ?thesis by (auto simp: constRefsHeld_def)
  next
    assume "NativeImageFetchFromRasterNoLock typeMan nativeImg raster name h = Thrown e (img', h')"
    with c have
      i: "NativeImageFetchFromRaster_internal typeMan img1 raster name False h1 = Thrown e (img', h')"
      by (auto simp: NativeImageFetchFromRasterNoLock_def split: outcome.splits)
    from internal_Thrown[OF i] p po1 show ?thesis by (auto simp: constRefsHeld_def)
  qed
  then obtain R1 where r1: "h1 p = Some R1" "constRefCount R' = constRefCount R1"
    and held': "constRefsHeld img' p = 0" by blast
  from clearImageData_fields[OF c] have held1: "constRefsHeld img1 p = 0"
    by (simp add: constRefsHeld_def)
  from clearImageData_accounting[OF c r1(1)] r1 held' held1 show ?thesis by auto
qed

lemma putToRaster_accounting:
  assumes f: "putToRaster typeMan prov nativeImg raster h = Returned u (img', h')
              \<or> putToRaster typeMan prov nativeImg raster h = Thrown e (img', h')"
      and p: "h' p = Some R'"
  shows "\<exists>R. h p = Some R \<and> constRefCount R' - constRefsHeld img' p = constRefCount R - constRefsHeld nativeImg p"
  using assms
  by (auto simp: putToRaster_def NativeImagePutToRaster_internal_def Let_def constRefsHeld_def
           split: if_splits option.splits outcome.splits)

lemma copy_accounting:
  assumes "NativeImagePrivate_copy right h = (copy, h')" and "\<not> externalRasterRef right"
      and "h' p = Some R'"
  shows "\<exists>R. h p = Some R \<and> constRefCount R' - constRefsHeld copy p = constRefCount R"
  using assms
  by (auto simp: NativeImagePrivate_copy_def AcquireRaster_def addConstRef_def Let_def constRefsHeld_def
           split: if_splits option.splits)

text \<open>
  Claim C1. The const-references of a raster that are not accounted to the image are the
  same before and after \<^verbatim>\<open>fetchFromRaster\<close>, \<^verbatim>\<open>NativeImageFetchFromRasterNoLock\<close> and
  \<^verbatim>\<open>putToRaster\<close> (whether they return or throw) and \<^verbatim>\<open>clearImageData\<close>, and the copy
  of an image without external reference accounts for the reference it takes: what an
  image adds to or takes from the count of a raster is exactly the one reference it holds
  while \<^verbatim>\<open>pixelOwner\<close> is that raster and \<^verbatim>\<open>externalRasterRef\<close> is false. In particular, for a fresh image and a live raster
  with native data whose codec reports \<^verbatim>\<open>hasDirectlyAcquired\<close>, \<^verbatim>\<open>fetchFromRaster\<close> returns
  with \<^verbatim>\<open>pixelOwner\<close> the raster and its const-reference count one higher, and destroying
  the image brings the count back.
\<close>

theorem NativeImage_constRef_held:
  "((fetchFromRaster typeMan prov nativeImg raster h = Returned u (img', h')
       \<or> fetchFromRaster typeMan prov nativeImg raster h = Thrown e (img', h'))
      \<and> h' p = Some R'
     \<longrightarrow> (\<exists>R. h p = Some R
            \<and> constRefCount R' - constRefsHeld img' p = constRefCount R - constRefsHeld nativeImg p))
   \<and> (clearImageData typeMan imgB hB = (imgB', hB') \<and> hB' q = Some Q'
     \<longrightarrow> (\<exists>Q. hB q = Some Q
            \<and> constRefCount Q' - constRefsHeld imgB' q = constRefCount Q - constRefsHeld imgB q))
   \<and> (hC r = Some R0 \<and> 0 < refCount R0 \<and> platformData R0 = Some t
       \<and> getNativeDataTypeName prov (Some t) = Inr name
       \<and> ReadFromNativeTexture typeMan
            (ClearImageData typeMan (ClearPaletteData typeMan d True) True) name t
           = Returned fb (d', t')
       \<and> hasDirectlyAcquired fb
     \<longrightarrow> (\<exists>img1 h1 R1 R2.
            fetchFromRaster typeMan prov (NativeImagePrivate_new d) r hC = Returned () (img1, h1)
            \<and> pixelOwner img1 = Some r \<and> \<not> externalRasterRef img1
            \<and> h1 r = Some R1 \<and> constRefCount R1 = constRefCount R0 + 1
            \<and> Destruct typeMan img1 h1 r = Some R2 \<and> constRefCount R2 = constRefCount R0))
   \<and> ((NativeImageFetchFromRasterNoLock typeMan imgN rasterN nameN hN = Returned uN (imgN', hN')
        \<or> NativeImageFetchFromRasterNoLock typeMan imgN rasterN nameN hN = Thrown eN (imgN', hN'))
       \<and> hN' pN = Some RN'
     \<longrightarrow> (\<exists>R. hN pN = Some R
            \<and> constRefCount RN' - constRefsHeld imgN' pN = constRefCount R - constRefsHeld imgN pN))
   \<and> ((putToRaster typeMan prov imgP rasterP hP = Returned uP (imgP', hP')
        \<or> putToRaster typeMan prov imgP rasterP hP = Thrown eP (imgP', hP'))
       \<and> hP' pP = Some RP'
     \<longrightarrow> (\<exists>R. hP pP = Some R
            \<and> constRefCount RP' - constRefsHeld imgP' pP = constRefCount R - constRefsHeld imgP pP))
   \<and> (NativeImagePrivate_copy imgK hK = (imgK', hK') \<and> \<not> externalRasterRef imgK \<and> hK' pK = Some RK'
     \<longrightarrow> (\<exists>R. hK pK = Some R \<and> constRefCount RK' - constRefsHeld imgK' pK = constRefCount R))"
proof (intro conjI impI)
  assume a: "(fetchFromRaster typeMan prov nativeImg raster h = Returned u (img', h')
       \<or> fetchFromRaster typeMan prov nativeImg raster h = Thrown e (img', h'))
      \<and> h' p = Some R'"
  then have p: "h' p = Some R'" by simp
  from a show "\<exists>R. h p = Some R
            \<and> constRefCount R' - constRefsHeld img' p = constRefCount R - constRefsHeld nativeImg p"
  proof (elim conjE disjE)
    assume "fetchFromRaster typeMan prov nativeImg raster h = Returned u (img', h')"
    then show ?thesis using p by (rule fetchFromRaster_accounting_Returned)
  next
    assume "fetchFromRaster typeMan prov nativeImg raster h = Thrown e (img', h')"
    then show ?thesis using p by (rule fetchFromRaster_accounting_Thrown)
  qed
next
  assume b: "clearImageData typeMan imgB hB = (imgB', hB') \<and> hB' q = Some Q'"
  from clearImageData_accounting[OF conjunct1[OF b] conjunct2[OF b]]
  show "\<exists>Q. hB q = Some Q
            \<and> constRefCount Q' - constRefsHeld imgB' q = constRefCount Q - constRefsHeld imgB q"
    by blast
next
  assume "hC r = Some R0 \<and> 0 < refCount R0 \<and> platformData R0 = Some t
       \<and> getNativeDataTypeName prov (Some t) = Inr name
       \<and> ReadFromNativeTexture typeMan
            (ClearImageData typeMan (ClearPaletteData typeMan d True) True) name t
           = Returned fb (d', t')
       \<and> hasDirectlyAcquired fb"
  then show "\<exists>img1 h1 R1 R2.
            fetchFromRaster typeMan prov (NativeImagePrivate_new d) r hC = Returned () (img1, h1)
            \<and> pixelOwner img1 = Some r \<and> \<not> externalRasterRef img1
            \<and> h1 r = Some R1 \<and> constRefCount R1 = constRefCount R0 + 1
            \<and> Destruct typeMan img1 h1 r = Some R2 \<and> constRefCount R2 = constRefCount R0"
    by (elim conjE) (rule fetch_scenario)
next
  assume n: "(NativeImageFetchFromRasterNoLock typeMan imgN rasterN nameN hN = Returned uN (imgN', hN')
        \<or> NativeImageFetchFromRasterNoLock typeMan imgN rasterN nameN hN = Thrown eN (imgN', hN'))
       \<and> hN' pN = Some RN'"
  from NoLock_accounting[OF conjunct1[OF n] conjunct2[OF n]]
  show "\<exists>R. hN pN = Some R
            \<and> constRefCount RN' - constRefsHeld imgN' pN = constRefCount R - constRefsHeld imgN pN"
    by blast
next
  assume n: "(putToRaster typeMan prov imgP rasterP hP = Returned uP (imgP', hP')
        \<or> putToRaster typeMan prov imgP rasterP hP = Thrown eP (imgP', hP'))
       \<and> hP' pP = Some RP'"
  from putToRaster_accounting[OF conjunct1[OF n] conjunct2[OF n]]
  show "\<exists>R. hP pP = Some R
            \<and> constRefCount RP' - constRefsHeld imgP' pP = constRefCount R - constRefsHeld imgP pP"
    by blast
next
  assume n: "NativeImagePrivate_copy imgK hK = (imgK', hK') \<and> \<not> externalRasterRef imgK \<and> hK' pK = Some RK'"
  then show "\<exists>R. hK pK = Some R \<and> constRefCount RK' - constRefsHeld imgK' pK = constRefCount R"
    by (elim conjE) (rule copy_accounting)
qed

text \<open>The scenario on the example raster, whose const-reference count goes from 0 to 1 and back.\<close>

theorem NativeImage_constRef_held_witness:
  "fetchFromRaster exampleCodec exampleProvider (NativeImagePrivate_new []) 0 exampleHeap
     = Returned () (borrowedImage, borrowedHeap)
   \<and> exampleHeap 0 = Some exampleRaster \<and> constRefCount exampleRaster = 0
   \<and> pixelOwner borrowedImage = Some 0 \<and> \<not> externalRasterRef borrowedImage
   \<and> constRefsHeld borrowedImage 0 = 1
   \<and> map_option constRefCount (borrowedHeap 0) = Some 1
   \<and> map_option constRefCount (Destruct exampleCodec borrowedImage borrowedHeap 0) = Some 0"
  using NativeImage_constRef_held
          [where typeMan = exampleCodec and prov = exampleProvider
             and nativeImg = "NativeImagePrivate_new []" and raster = 0 and h = exampleHeap
             and u = "()" and img' = borrowedImage and h' = borrowedHeap and p = 0
             and R' = "exampleRaster\<lparr>refCount := 2, constRefCount := 1\<rparr>"
             and imgB = borrowedImage and hB = borrowedHeap and imgB' = "NativeImagePrivate_new []"
             and hB' = exampleHeap and q = 0 and Q' = exampleRaster
             and hC = exampleHeap and r = 0 and ?R0.0 = exampleRaster and t = exampleTexture
             and name = "''PowerVR''" and d = "[]"
             and fb = "\<lparr>hasDirectlyAcquired = True, hasDirectlyAcquiredPalette = False\<rparr>"
             and d' = "[[1, 2, 3, 4]]" and t' = exampleTexture]
        example_fetch example_destruct
  by (simp add: constRefsHeld_def example_defs)

text \<open>
  Claim C6. When \<^verbatim>\<open>pixelOwner\<close> is set, \<^verbatim>\<open>putToRaster\<close> throws the already-owned exception
  and leaves image and heap as they were, whatever the codec and the texture provider
  are: neither is called. When \<^verbatim>\<open>pixelOwner\<close> is null, that exception is not thrown.
\<close>

theorem putToRaster_AlreadyOwned:
  "(pixelOwner nativeImg \<noteq> None
      \<longrightarrow> putToRaster typeMan prov nativeImg raster h = Thrown AlreadyOwned (nativeImg, h))
   \<and> (pixelOwner nativeImg = None
      \<longrightarrow> putToRaster typeMan prov nativeImg raster h \<noteq> Thrown AlreadyOwned st)"
  by (auto simp: putToRaster_def NativeImagePutToRaster_internal_def AlreadyOwned_def Let_def
           split: option.splits outcome.splits)

text \<open>A borrowing image is refused; an image that owns its pixels is not refused for that reason.\<close>

theorem putToRaster_AlreadyOwned_witness:
  "pixelOwner borrowedImage \<noteq> None
   \<and> putToRaster exampleCodec exampleProvider borrowedImage 0 borrowedHeap
       = Thrown AlreadyOwned (borrowedImage, borrowedHeap)
   \<and> pixelOwner (NativeImagePrivate_new [[5, 6, 7, 8]]) = None
   \<and> putToRaster exampleCodec exampleProvider (NativeImagePrivate_new [[5, 6, 7, 8]]) 1 exampleHeap
       \<noteq> Thrown AlreadyOwned (NativeImagePrivate_new [[5, 6, 7, 8]], exampleHeap)"
  using putToRaster_AlreadyOwned
          [where nativeImg = borrowedImage and typeMan = exampleCodec and prov = exampleProvider
             and raster = 0 and h = borrowedHeap]
        putToRaster_AlreadyOwned
          [where nativeImg = "NativeImagePrivate_new [[5, 6, 7, 8]]" and typeMan = exampleCodec
             and prov = exampleProvider and raster = 1 and h = exampleHeap
             and st = "(NativeImagePrivate_new [[5, 6, 7, 8]], exampleHeap)"]
  by (simp add: borrowedImage_def NativeImagePrivate_new_def)

lemma putToRaster_Thrown_fields:
  "putToRaster typeMan prov nativeImg raster h = Thrown e (img', h') \<Longrightarrow>
     hasPaletteDataRef img' = hasPaletteDataRef nativeImg \<and> hasPixelDataRef img' = hasPixelDataRef nativeImg
     \<and> pixelOwner img' = pixelOwner nativeImg \<and> externalRasterRef img' = externalRasterRef nativeImg"
  by (auto simp: putToRaster_def split: if_splits outcome.splits)

text \<open>
  Claim C5, as amended. A \<^verbatim>\<open>fetchFromRaster\<close> that throws leaves the image in the empty
  ownership state: \<^verbatim>\<open>clearImageData\<close> ran before the codec was called. A \<^verbatim>\<open>putToRaster\<close>
  that throws leaves the four ownership fields as they were on entry: it never calls
  \<^verbatim>\<open>clearImageData\<close>.
\<close>

theorem failed_transfer_ownership_state:
  "(fetchFromRaster typeMan prov nativeImg raster h = Thrown e (img', h')
      \<longrightarrow> hasPaletteDataRef img' = False \<and> hasPixelDataRef img' = False \<and> pixelOwner img' = None
          \<and> externalRasterRef img' = False)
   \<and> (putToRaster typeMan prov imgP rasterP hP = Thrown eP (imgP', hP')
      \<longrightarrow> hasPaletteDataRef imgP' = hasPaletteDataRef imgP \<and> hasPixelDataRef imgP' = hasPixelDataRef imgP
          \<and> pixelOwner imgP' = pixelOwner imgP \<and> externalRasterRef imgP' = externalRasterRef imgP)"
  using fetchFromRaster_Thrown_fields putToRaster_Thrown_fields by blast

lemma example_fetch_fails:
  "fetchFromRaster exampleCodec exampleProvider borrowedImage 1 borrowedHeap
     = Thrown (RwException ''raster has no native data in NativeImage raster data acquisition'')
         (NativeImagePrivate_new [], [0 \<mapsto> exampleRaster, 1 \<mapsto> emptyRaster])"
  by (simp add: fetchFromRaster_def clearImageData_def NativeImagePrivate_new_def Let_def
        addConstRef_def remConstRef_def DeleteRaster_def NativeImageFetchFromRaster_internal_def
        example_defs)

text \<open>
  A fetch from the raster without native data fails and empties the borrowing image; a
  put of the borrowing image fails and leaves it borrowing.
\<close>

theorem failed_transfer_ownership_state_witness:
  "fetchFromRaster exampleCodec exampleProvider borrowedImage 1 borrowedHeap
     = Thrown (RwException ''raster has no native data in NativeImage raster data acquisition'')
         (NativeImagePrivate_new [], [0 \<mapsto> exampleRaster, 1 \<mapsto> emptyRaster])
   \<and> pixelOwner (NativeImagePrivate_new ([] :: byte list list)) = None
   \<and> putToRaster exampleCodec exampleProvider borrowedImage 0 borrowedHeap
       = Thrown AlreadyOwned (borrowedImage, borrowedHeap)
   \<and> pixelOwner borrowedImage = Some 0"
  using failed_transfer_ownership_state
          [where typeMan = exampleCodec and prov = exampleProvider and nativeImg = borrowedImage
             and raster = 1 and h = borrowedHeap
             and e = "RwException ''raster has no native data in NativeImage raster data acquisition''"
             and img' = "NativeImagePrivate_new []"
             and h' = "[0 \<mapsto> exampleRaster, 1 \<mapsto> emptyRaster]"
             and imgP = borrowedImage and rasterP = 0 and hP = borrowedHeap and eP = AlreadyOwned
             and imgP' = borrowedImage and hP' = borrowedHeap]
        example_fetch_fails
  by (simp add: putToRaster_def borrowedImage_def)

text \<open>
  The claim as stated fails for \<^verbatim>\<open>putToRaster\<close>: the image that has just borrowed from the
  example raster is refused and is still borrowing afterwards.
\<close>

theorem failed_putToRaster_counterexample:
  "fetchFromRaster exampleCodec exampleProvider (NativeImagePrivate_new []) 0 exampleHeap
     = Returned () (borrowedImage, borrowedHeap)
   \<and> putToRaster exampleCodec exampleProvider borrowedImage 0 borrowedHeap
       = Thrown AlreadyOwned (borrowedImage, borrowedHeap)
   \<and> pixelOwner borrowedImage = Some 0 \<and> hasPixelDataRef borrowedImage = True"
  using example_fetch
  by (simp add: putToRaster_def borrowedImage_def)

lemma putToRaster_internal_Thrown:
  "NativeImagePutToRaster_internal typeMan prov mem raster h = Thrown e (d, h') \<Longrightarrow>
     (e = RwException ''no raster native data'' \<and> h' = h)
     \<or> (\<exists>R nativeTex msg t. h raster = Some R \<and> platformData R = Some nativeTex
          \<and> WriteToNativeTexture typeMan mem (nativeTexTypeName prov nativeTex)
               (UnsetPixelDataFromTexture prov nativeTex True) = Thrown msg (d, t)
          \<and> e = CodecException msg \<and> h' = h(raster \<mapsto> R\<lparr>platformData := Some t\<rparr>))"
  by (auto simp: NativeImagePutToRaster_internal_def Let_def split: option.splits outcome.splits)

text \<open>
  Claim C4, as amended. When \<^verbatim>\<open>putToRaster\<close> throws before the codec is reached (the image
  is owned by a raster, or the raster has no native data), the heap is as on entry. When
  the codec's \<^verbatim>\<open>WriteToNativeTexture\<close> throws, it was handed the texture that
  \<^verbatim>\<open>UnsetPixelDataFromTexture\<close> had emptied, and the raster keeps what the codec left of
  it; the counts of the raster and all other rasters are as on entry.
\<close>

theorem putToRaster_throw_destination:
  "putToRaster typeMan prov nativeImg raster h = Thrown e (img', h') \<longrightarrow>
     (pixelOwner nativeImg \<noteq> None \<and> e = AlreadyOwned \<and> h' = h)
     \<or> (pixelOwner nativeImg = None \<and> e = RwException ''no raster native data'' \<and> h' = h)
     \<or> (pixelOwner nativeImg = None
         \<and> (\<exists>R nativeTex msg d t. h raster = Some R \<and> platformData R = Some nativeTex
               \<and> WriteToNativeTexture typeMan (nativeData nativeImg) (nativeTexTypeName prov nativeTex)
                    (UnsetPixelDataFromTexture prov nativeTex True) = Thrown msg (d, t)
               \<and> e = CodecException msg \<and> h' = h(raster \<mapsto> R\<lparr>platformData := Some t\<rparr>)))"
proof
  assume a: "putToRaster typeMan prov nativeImg raster h = Thrown e (img', h')"
  show "(pixelOwner nativeImg \<noteq> None \<and> e = AlreadyOwned \<and> h' = h)
     \<or> (pixelOwner nativeImg = None \<and> e = RwException ''no raster native data'' \<and> h' = h)
     \<or> (pixelOwner nativeImg = None
         \<and> (\<exists>R nativeTex msg d t. h raster = Some R \<and> platformData R = Some nativeTex
               \<and> WriteToNativeTexture typeMan (nativeData nativeImg) (nativeTexTypeName prov nativeTex)
                    (UnsetPixelDataFromTexture prov nativeTex True) = Thrown msg (d, t)
               \<and> e = CodecException msg \<and> h' = h(raster \<mapsto> R\<lparr>platformData := Some t\<rparr>)))"
  proof (cases "pixelOwner nativeImg")
    case (Some po)
    with a show ?thesis by (simp add: putToRaster_def)
  next
    case None
    with a obtain d where
      "NativeImagePutToRaster_internal typeMan prov (nativeData nativeImg) raster h = Thrown e (d, h')"
      by (auto simp: putToRaster_def split: outcome.splits)
    from putToRaster_internal_Thrown[OF this] None show ?thesis by blast
  qed
qed

lemma example_put_fails:
  "putToRaster exampleCodec exampleProvider (NativeImagePrivate_new [[5, 6, 7, 8]]) 0 exampleHeap
     = Thrown (CodecException ''native texture type not supported'')
         (NativeImagePrivate_new [[5, 6, 7, 8]], emptiedHeap)"
  by (simp add: putToRaster_def NativeImagePutToRaster_internal_def NativeImagePrivate_new_def Let_def
        UnsetPixelDataFromTexture_pvr_def emptiedHeap_def example_defs)

text \<open>The example codec refuses to write: the example raster is left without its layer.\<close>

theorem putToRaster_throw_destination_witness:
  "putToRaster exampleCodec exampleProvider (NativeImagePrivate_new [[5, 6, 7, 8]]) 0 exampleHeap
     = Thrown (CodecException ''native texture type not supported'')
         (NativeImagePrivate_new [[5, 6, 7, 8]], emptiedHeap)
   \<and> emptiedHeap = exampleHeap(0 \<mapsto> exampleRaster\<lparr>platformData :=
         Some (UnsetPixelDataFromTexture exampleProvider exampleTexture True)\<rparr>)"
  using putToRaster_throw_destination
          [where typeMan = exampleCodec and prov = exampleProvider
             and nativeImg = "NativeImagePrivate_new [[5, 6, 7, 8]]" and raster = 0 and h = exampleHeap
             and e = "CodecException ''native texture type not supported''"
             and img' = "NativeImagePrivate_new [[5, 6, 7, 8]]" and h' = emptiedHeap]
        example_put_fails
  by (simp add: emptiedHeap_def UnsetPixelDataFromTexture_pvr_def example_defs)

text \<open>
  The claim as stated fails: after the failed put the texture of the example raster has
  lost the layer it had on entry.
\<close>

theorem putToRaster_strong_guarantee_counterexample:
  "putToRaster exampleCodec exampleProvider (NativeImagePrivate_new [[5, 6, 7, 8]]) 0 exampleHeap
     = Thrown (CodecException ''native texture type not supported'')
         (NativeImagePrivate_new [[5, 6, 7, 8]], emptiedHeap)
   \<and> map_option platformData (exampleHeap 0) = Some (Some exampleTexture)
   \<and> map_option platformData (emptiedHeap 0) = Some (Some (exampleTexture\<lparr>NativeTexturePVR.mipmaps := []\<rparr>))
   \<and> exampleTexture\<lparr>NativeTexturePVR.mipmaps := []\<rparr> \<noteq> exampleTexture"
  using example_put_fails
  by (simp add: emptiedHeap_def example_defs)

text \<open>
  Claim C10. The copy of an image that has a \<^verbatim>\<open>pixelOwner\<close> has the same \<^verbatim>\<open>pixelOwner\<close> and
  the same three flags; the owning count and the const-reference count of that raster
  are each one higher and nothing else in the heap changes. When \<^verbatim>\<open>externalRasterRef\<close> is
  true, clearing the copy gives back the owning reference only: the const-reference
  count stays one higher than before the copy.
\<close>

theorem NativeImagePrivate_copy_shares_owner:
  "h r = Some R \<and> pixelOwner right = Some r \<and> 0 \<le> constRefCount R \<longrightarrow>
     (\<exists>copy h'. NativeImagePrivate_copy right h = (copy, h')
        \<and> pixelOwner copy = Some r
        \<and> hasPaletteDataRef copy = hasPaletteDataRef right
        \<and> hasPixelDataRef copy = hasPixelDataRef right
        \<and> externalRasterRef copy = externalRasterRef right
        \<and> h' = h(r \<mapsto> R\<lparr>refCount := refCount R + 1, constRefCount := constRefCount R + 1\<rparr>)
        \<and> (externalRasterRef right \<longrightarrow>
              snd (clearImageData typeMan copy h') = h(r \<mapsto> R\<lparr>constRefCount := constRefCount R + 1\<rparr>)))"
  by (auto simp: NativeImagePrivate_copy_def AcquireRaster_def addConstRef_def clearImageData_def
        DeleteRaster_def Let_def)

text \<open>The copy of an image with an external reference on the example raster, and its clearing.\<close>

theorem NativeImagePrivate_copy_shares_owner_witness:
  "borrowedHeap 0 = Some (exampleRaster\<lparr>refCount := 2, constRefCount := 1\<rparr>)
   \<and> pixelOwner externalImage = Some 0
   \<and> NativeImagePrivate_copy externalImage borrowedHeap
       = (externalImage, [1 \<mapsto> emptyRaster, 0 \<mapsto> exampleRaster\<lparr>refCount := 3, constRefCount := 2\<rparr>])
   \<and> snd (clearImageData exampleCodec externalImage
             [1 \<mapsto> emptyRaster, 0 \<mapsto> exampleRaster\<lparr>refCount := 3, constRefCount := 2\<rparr>])
       = [1 \<mapsto> emptyRaster, 0 \<mapsto> exampleRaster\<lparr>refCount := 2, constRefCount := 2\<rparr>]"
  using NativeImagePrivate_copy_shares_owner
          [where h = borrowedHeap and r = 0 and R = "exampleRaster\<lparr>refCount := 2, constRefCount := 1\<rparr>"
             and right = externalImage and typeMan = exampleCodec]
  by (simp add: externalImage_def NativeImagePrivate_copy_def AcquireRaster_def addConstRef_def
        clearImageData_def DeleteRaster_def Let_def example_defs)

section \<open>Properties of the format registry\<close>

lemmas registry_example_defs = magicProbe_def exampleFormat_def ddsMagic_def pvrMagic_def
  pvrLegacyMagic_def exampleManagers_def exampleRegistrations_def emptyEnv_def exampleEnv_def
  registeredManagers_def pvrStream_def

















text \<open>
  What the condition on \<^verbatim>\<open>LIST_INSERT\<close> decides: were the macro to link a node directly
  behind the root, in front of the nodes linked before it, the same three registrations
  would be visited in the order PVRLegacy, PVR, DDS, and the same stream would be
  recognised as PVRLegacy, the manager that was registered last.
\<close>

lemma linkFirst_registrations:
  "registerAll linkFirst exampleManagers (Some emptyEnv) exampleRegistrations
     = (Some (exampleEnv\<lparr>formatsList := [2, 1, 0]\<rparr>), registeredManagers)
   \<and> GetNativeImageTypeForStream registeredManagers (Some (exampleEnv\<lparr>formatsList := [2, 1, 0]\<rparr>)) pvrStream
       = (Some ''PVRLegacy'', pvrStream)"
  by (simp add: RegisterNativeImageType_def RegisterCommonTypeInterface_def linkFirst_def
        GetNativeImageTypeForStream_def tell_def seek_BEG_def read_s_def Let_def
        registry_example_defs)

section \<open>Properties of the probes\<close>

lemmas tiff_example_defs = tiffHeader_def tiffDirectory_def validTiff_def cyclicTiff_def

lemmas tiff_probe_defs = read_s_def seek_BEG_def tell_def size_s_def get_uint16_def get_uint32_def
  ifd_entry_ok_def field_item_size_def FIELD_BYTE_def FIELD_ASCII_def FIELD_SHORT_def FIELD_LONG_def
  FIELD_RATIONAL_def Let_def

lemma example_valid:
  "IsStreamCompatible validTiff = Some (True, validTiff\<lparr>position := 26\<rparr>)"
proof -
  have "walk_ifds False 0 26 (validTiff\<lparr>position := 8\<rparr>) = Some (True, validTiff\<lparr>position := 26\<rparr>)"
    by (subst walk_ifds.simps) (simp add: tiff_probe_defs tiff_example_defs)
  then show ?thesis
    by (simp add: IsStreamCompatible_def tiff_probe_defs tiff_example_defs)
qed

lemma walk_ifds_cyclic:
  assumes w: "walk_ifds bigEndian tiff_start tiff_size s = Some y"
  shows "\<not> (bigEndian = False \<and> tiff_start = 0 \<and> tiff_size = 26 \<and> s = cyclicTiff\<lparr>position := 8\<rparr>)"
proof (rule walk_ifds.raw_induct
         [where P = "\<lambda>be st sz s y. \<not> (be = False \<and> st = 0 \<and> sz = 26 \<and> s = cyclicTiff\<lparr>position := 8\<rparr>)",
          OF _ w], goal_cases)
  case (1 walk be st sz s y)
  show ?case
  proof
    assume a: "be = False \<and> st = 0 \<and> sz = 26 \<and> s = cyclicTiff\<lparr>position := 8\<rparr>"
    with 1(2) have "walk False 0 26 (cyclicTiff\<lparr>position := 8\<rparr>) = Some y"
      by (simp add: tiff_probe_defs tiff_example_defs)
    from 1(1)[OF this] show False by simp
  qed
qed

lemma IsStreamCompatible_cyclic:
  "IsStreamCompatible cyclicTiff = None"
proof (cases "IsStreamCompatible cyclicTiff")
  case None
  then show ?thesis .
next
  case (Some y)
  then have "walk_ifds False 0 26 (cyclicTiff\<lparr>position := 8\<rparr>) = Some y"
    by (simp add: IsStreamCompatible_def tiff_probe_defs tiff_example_defs)
  from walk_ifds_cyclic[OF this] show ?thesis by simp
qed

lemma IsStreamCompatible_bad_header:
  "\<not> tiff_header_accepted s \<Longrightarrow> IsStreamCompatible s = Some (False, snd (read_s 8 s))"
  by (auto simp: IsStreamCompatible_def tiff_header_accepted_def read_s_def get_uint16_def tell_def Let_def)

lemma read_s_content: "content (snd (read_s n s)) = content s"
  by (simp add: read_s_def Let_def)

lemma read_dir_entries_content:
  "read_dir_entries be sz n s = (ok, s') \<Longrightarrow> content s' = content s"
proof (induction n arbitrary: s)
  case 0
  then show ?case by simp
next
  case (Suc n)
  obtain buf s1 where r: "read_s 12 s = (buf, s1)" by fastforce
  then have c1: "content s1 = content s" using read_s_content[of 12 s] by simp
  show ?case
  proof (cases "length buf \<noteq> 12 \<or> \<not> ifd_entry_ok be sz buf")
    case True
    with Suc.prems r c1 show ?thesis by (auto split: if_splits)
  next
    case False
    with Suc.prems r have "read_dir_entries be sz n s1 = (ok, s')" by simp
    from Suc.IH[OF this] c1 show ?thesis by simp
  qed
qed

lemma walk_ifds_content:
  assumes w: "walk_ifds be st sz s = Some y"
  shows "content (snd y) = content s"
proof (rule walk_ifds.raw_induct[where P = "\<lambda>be st sz s y. content (snd y) = content s", OF _ w],
       goal_cases)
  case (1 walk be st sz s y)
  obtain nb s1 where r1: "read_s 2 s = (nb, s1)" by fastforce
  then have c1: "content s1 = content s" using read_s_content[of 2 s] by simp
  obtain ok s2 where rd: "read_dir_entries be sz (get_uint16 be nb) s1 = (ok, s2)" by fastforce
  from read_dir_entries_content[OF rd] c1 have c2: "content s2 = content s" by simp
  obtain pb s3 where r3: "read_s 4 s2 = (pb, s3)" by fastforce
  then have c3: "content s3 = content s" using read_s_content[of 4 s2] c2 by simp
  show ?case
  proof (cases "length nb \<noteq> 2 \<or> get_uint16 be nb = 0 \<or> \<not> ok \<or> length pb \<noteq> 4 \<or> get_uint32 be pb = 0")
    case True
    with 1(2) r1 rd r3 have "snd y = s1 \<or> snd y = s2 \<or> snd y = s3"
      by (auto simp: Let_def split: if_splits) (metis snd_conv)+
    with c1 c2 c3 show ?thesis by auto
  next
    case False
    with 1(2) r1 rd r3 have "walk be st sz (seek_BEG (st + get_uint32 be pb) s3) = Some y"
      by (simp add: Let_def)
    from 1(1)[OF this] c3 show ?thesis by (simp add: seek_BEG_def)
  qed
qed

lemma IsStreamCompatible_content:
  "IsStreamCompatible s = Some y \<Longrightarrow> content (snd y) = content s"
  using read_s_content[of 8 s]
  by (auto simp: IsStreamCompatible_def Let_def seek_BEG_def split: prod.splits if_splits
           dest!: walk_ifds_content)

lemma spec_entry_ok_eq: "spec_entry_ok be sz e = ifd_entry_ok be sz e"
proof -
  let ?ty = "get_uint16 be (take 2 (drop 2 e))"
  consider "?ty = 1" | "?ty = 2" | "?ty = 3" | "?ty = 4" | "?ty = 5" | "?ty = 0" | "?ty > 5"
    by linarith
  then show ?thesis
    by cases
       (auto simp: spec_entry_ok_def ifd_entry_ok_def field_item_size_def FIELD_BYTE_def FIELD_ASCII_def
          FIELD_SHORT_def FIELD_LONG_def FIELD_RATIONAL_def Let_def mult.commute)
qed

lemma read_s_eq:
  "read_s n s = (take n (drop (position s) (content s)),
                 s\<lparr>position := position s + length (take n (drop (position s) (content s)))\<rparr>)"
  by (simp add: read_s_def Let_def)

lemma all_less_Suc_shift: "(\<forall>i<Suc n. P i) = (P 0 \<and> (\<forall>i<n. P (Suc i)))"
  by (auto simp: less_Suc_eq_0_disj)

lemma read_dir_entries_spec:
  "read_dir_entries be sz n s = (ok, s') \<Longrightarrow>
     ok = (\<forall>i<n. length (take 12 (drop (position s + 12 * i) (content s))) = 12
                 \<and> ifd_entry_ok be sz (take 12 (drop (position s + 12 * i) (content s))))
     \<and> (ok \<longrightarrow> position s' = position s + 12 * n) \<and> content s' = content s"
proof (induction n arbitrary: s ok s')
  case 0
  then show ?case by simp
next
  case (Suc n)
  let ?e = "take 12 (drop (position s) (content s))"
  let ?s1 = "s\<lparr>position := position s + length ?e\<rparr>"
  show ?case
  proof (cases "length ?e = 12 \<and> ifd_entry_ok be sz ?e")
    case False
    with Suc.prems have "\<not> ok" "content s' = content s"
      by (auto simp: read_s_eq split: if_splits)
    with False show ?thesis by (auto simp: all_less_Suc_shift)
  next
    case True
    with Suc.prems have r: "read_dir_entries be sz n ?s1 = (ok, s')"
      by (simp add: read_s_eq)
    from Suc.IH[OF r] True show ?thesis
      by (simp add: all_less_Suc_shift add.assoc add.left_commute)
  qed
qed

lemma spec_directory_read:
  assumes n: "n = get_uint16 be (take 2 (drop (position s) (content s)))"
      and rd: "read_dir_entries be sz n (s\<lparr>position := position s + 2\<rparr>) = (ok, s2)"
  shows "spec_directory be sz (content s) (position s) n
           = (length (take 2 (drop (position s) (content s))) = 2 \<and> n \<noteq> 0 \<and> ok
              \<and> length (take 4 (drop (position s + 2 + 12 * n) (content s))) = 4)"
  using read_dir_entries_spec[OF rd] n
  by (auto simp: spec_directory_def spec_entry_ok_eq)

lemma walk_ifds_step:
  assumes r1: "read_s 2 s = (nb, s1)"
      and rd: "read_dir_entries be sz (get_uint16 be nb) s1 = (ok, s2)"
      and r3: "read_s 4 s2 = (pb, s3)"
  shows "(let (num_dir_entries, s1) = read_s 2 s
      in if length num_dir_entries \<noteq> 2 then Some (False, s1)
         else (let dirEntryCount = get_uint16 be num_dir_entries
               in if dirEntryCount = 0 then Some (False, s1)
                  else (let (entriesOk, s2) = read_dir_entries be sz dirEntryCount s1
                        in if \<not> entriesOk then Some (False, s2)
                           else (let (next_ifd_pointer, s3) = read_s 4 s2
                                 in if length next_ifd_pointer \<noteq> 4 then Some (False, s3)
                                    else (let nextIFDPointer = get_uint32 be next_ifd_pointer
                                          in if nextIFDPointer = 0 then Some (True, s3)
                                             else walk be st sz
                                                    (seek_BEG (st + nextIFDPointer) s3))))))
         = (if length nb \<noteq> 2 then Some (False, s1)
            else if get_uint16 be nb = 0 then Some (False, s1)
            else if \<not> ok then Some (False, s2)
            else if length pb \<noteq> 4 then Some (False, s3)
            else if get_uint32 be pb = 0 then Some (True, s3)
            else walk be st sz (seek_BEG (st + get_uint32 be pb) s3))"
  using assms by (simp add: Let_def)

text \<open>What the reads of one round of the loop see, in terms of the bytes of the stream.\<close>

lemma walk_ifds_reads:
  assumes r1: "read_s 2 s = (nb, s1)"
      and rd: "read_dir_entries be sz (get_uint16 be nb) s1 = (ok, s2)"
      and r3: "read_s 4 s2 = (pb, s3)"
      and l2: "length nb = 2"
  shows "spec_directory be sz (content s) (position s) m
           = (m = get_uint16 be nb \<and> m \<noteq> 0 \<and> ok \<and> length pb = 4)"
    and "ok \<Longrightarrow> pb = take 4 (drop (position s + 2 + 12 * get_uint16 be nb) (content s))"
    and "content s3 = content s"
proof -
  from r1 have nb: "nb = take 2 (drop (position s) (content s))"
    and s1: "s1 = s\<lparr>position := position s + length nb\<rparr>" by (auto simp: read_s_eq)
  from s1 l2 have s1': "s1 = s\<lparr>position := position s + 2\<rparr>" by simp
  note spec = read_dir_entries_spec[OF rd[unfolded s1']]
  from spec have c2: "content s2 = content s"
    and p2: "ok \<Longrightarrow> position s2 = position s + 2 + 12 * get_uint16 be nb" by simp_all
  from r3 have pb: "pb = take 4 (drop (position s2) (content s2))"
    and s3: "s3 = s2\<lparr>position := position s2 + length pb\<rparr>" by (auto simp: read_s_eq)
  show okpb: "ok \<Longrightarrow> pb = take 4 (drop (position s + 2 + 12 * get_uint16 be nb) (content s))"
    using pb c2 p2 by simp
  show "content s3 = content s" using s3 c2 by simp
  show "spec_directory be sz (content s) (position s) m
           = (m = get_uint16 be nb \<and> m \<noteq> 0 \<and> ok \<and> length pb = 4)"
  proof (cases "m = get_uint16 be nb")
    case False
    then show ?thesis using nb by (auto simp: spec_directory_def)
  next
    case True
    have "spec_directory be sz (content s) (position s) m
            = (m \<noteq> 0 \<and> ok \<and> length (take 4 (drop (position s + 2 + 12 * m) (content s))) = 4)"
      using spec True nb l2 by (auto simp: spec_directory_def spec_entry_ok_eq)
    also have "\<dots> = (m \<noteq> 0 \<and> ok \<and> length pb = 4)"
      using okpb True by auto
    finally show ?thesis using True by simp
  qed
qed

lemma walk_ifds_sound:
  assumes w: "walk_ifds be st sz s = Some y"
  shows "fst y = spec_ifd_chain be st sz (content s) (position s)"
proof (rule walk_ifds.raw_induct
         [where P = "\<lambda>be st sz s y. fst y = spec_ifd_chain be st sz (content s) (position s)", OF _ w],
       goal_cases)
  case (1 walk be st sz s y)
  obtain nb s1 where r1: "read_s 2 s = (nb, s1)" by fastforce
  obtain ok s2 where rd: "read_dir_entries be sz (get_uint16 be nb) s1 = (ok, s2)" by fastforce
  obtain pb s3 where r3: "read_s 4 s2 = (pb, s3)" by fastforce
  let ?n = "get_uint16 be nb"
  let ?p = "get_uint32 be pb"
  note body = 1(2)[unfolded walk_ifds_step[OF r1 rd r3]]
  have no_dir: "\<not> spec_ifd_chain be st sz (content s) (position s)"
    if "\<And>m. \<not> spec_directory be sz (content s) (position s) m"
    using that by (auto elim: spec_ifd_chain.cases)
  show ?case
  proof (cases "length nb = 2")
    case False
    from r1 have "nb = take 2 (drop (position s) (content s))" by (simp add: read_s_eq)
    with False have "\<And>m. \<not> spec_directory be sz (content s) (position s) m"
      by (simp add: spec_directory_def)
    from no_dir[OF this] body False show ?thesis by auto
  next
    case l2: True
    note reads = walk_ifds_reads[OF r1 rd r3 l2]
    show ?thesis
    proof (cases "?n \<noteq> 0 \<and> ok \<and> length pb = 4")
      case False
      then have "\<And>m. \<not> spec_directory be sz (content s) (position s) m"
        using reads(1) by auto
      from no_dir[OF this] body False l2 show ?thesis by (auto split: if_splits)
    next
      case True
      then have d: "spec_directory be sz (content s) (position s) ?n" using reads(1) by simp
      from True reads(2) have pb: "pb = take 4 (drop (position s + 2 + 12 * ?n) (content s))" by simp
      show ?thesis
      proof (cases "?p = 0")
        case z: True
        have "spec_ifd_chain be st sz (content s) (position s)"
          by (rule spec_ifd_chain.last_directory[OF d]) (use z pb in simp)
        moreover from body True l2 z have "fst y = True" by auto
        ultimately show ?thesis by simp
      next
        case nz: False
        from body True l2 nz have call: "walk be st sz (seek_BEG (st + ?p) s3) = Some y" by simp
        from 1(1)[OF call] reads(3)
        have y: "fst y = spec_ifd_chain be st sz (content s) (st + ?p)"
          by (simp add: seek_BEG_def)
        have "spec_ifd_chain be st sz (content s) (position s)
                = spec_ifd_chain be st sz (content s) (st + ?p)"
        proof
          assume "spec_ifd_chain be st sz (content s) (position s)"
          then show "spec_ifd_chain be st sz (content s) (st + ?p)"
          proof (cases rule: spec_ifd_chain.cases)
            case (last_directory m)
            with reads(1) have "m = ?n" by simp
            with last_directory pb nz show ?thesis by simp
          next
            case (next_directory m)
            with reads(1) have "m = ?n" by simp
            with next_directory pb show ?thesis by simp
          qed
        next
          assume a: "spec_ifd_chain be st sz (content s) (st + ?p)"
          show "spec_ifd_chain be st sz (content s) (position s)"
            by (rule spec_ifd_chain.next_directory[OF d]) (use nz pb a in simp_all)
        qed
        with y show ?thesis by simp
      qed
    qed
  qed
qed

lemma walk_ifds_complete:
  assumes "spec_ifd_chain be st sz bytes pos"
  shows "content s = bytes \<Longrightarrow> position s = pos \<Longrightarrow> \<exists>y. walk_ifds be st sz s = Some y"
  using assms
proof (induction arbitrary: s rule: spec_ifd_chain.induct)
  case (last_directory pos n)
  obtain nb s1 where r1: "read_s 2 s = (nb, s1)" by fastforce
  obtain ok s2 where rd: "read_dir_entries be sz (get_uint16 be nb) s1 = (ok, s2)" by fastforce
  obtain pb s3 where r3: "read_s 4 s2 = (pb, s3)" by fastforce
  from r1 have nb: "nb = take 2 (drop (position s) (content s))" by (simp add: read_s_eq)
  from last_directory nb have l2: "length nb = 2" by (simp add: spec_directory_def)
  note reads = walk_ifds_reads[OF r1 rd r3 l2]
  from last_directory reads(1) have d: "n = get_uint16 be nb" "n \<noteq> 0" "ok" "length pb = 4" by auto
  from reads(2) d last_directory have "get_uint32 be pb = 0" by simp
  with d l2 show ?case
    by (subst walk_ifds.simps) (auto simp: walk_ifds_step[OF r1 rd r3])
next
  case (next_directory pos n)
  obtain nb s1 where r1: "read_s 2 s = (nb, s1)" by fastforce
  obtain ok s2 where rd: "read_dir_entries be sz (get_uint16 be nb) s1 = (ok, s2)" by fastforce
  obtain pb s3 where r3: "read_s 4 s2 = (pb, s3)" by fastforce
  from r1 have nb: "nb = take 2 (drop (position s) (content s))" by (simp add: read_s_eq)
  from next_directory nb have l2: "length nb = 2" by (simp add: spec_directory_def)
  note reads = walk_ifds_reads[OF r1 rd r3 l2]
  from next_directory.hyps(1) next_directory.prems reads(1)
  have d: "n = get_uint16 be nb" "n \<noteq> 0" "ok" "length pb = 4" by auto
  from reads(2) d next_directory.prems
  have pb: "pb = take 4 (drop (pos + 2 + 12 * n) bytes)" by simp
  let ?s4 = "seek_BEG (st + get_uint32 be pb) s3"
  have "content ?s4 = bytes" "position ?s4 = st + get_uint32 be (take 4 (drop (pos + 2 + 12 * n) bytes))"
    using reads(3) next_directory.prems pb by (simp_all add: seek_BEG_def)
  from next_directory.IH[OF this] obtain y where y: "walk_ifds be st sz ?s4 = Some y" by blast
  from next_directory.hyps(2) pb have nz: "get_uint32 be pb \<noteq> 0" by simp
  with d l2 y show ?case
    by (subst walk_ifds.simps) (auto simp: walk_ifds_step[OF r1 rd r3])
qed

lemma IsStreamCompatible_sound:
  assumes "IsStreamCompatible s = Some y"
  shows "fst y = spec_tiff_accepted s"
proof (cases "tiff_header_accepted s")
  case False
  with assms IsStreamCompatible_bad_header[OF False] show ?thesis
    by (auto simp: spec_tiff_accepted_def)
next
  case True
  let ?header = "take 8 (drop (position s) (content s))"
  let ?be = "?header ! 0 = 0x4D"
  let ?s1 = "s\<lparr>position := position s + 8\<rparr>"
  from True assms
  have w: "walk_ifds ?be (position s) (int (length (content s)) - int (position s))
             (seek_BEG (position s + get_uint32 ?be (take 4 (drop 4 ?header))) ?s1) = Some y"
    by (auto simp: IsStreamCompatible_def tiff_header_accepted_def read_s_eq tell_def size_s_def
          get_uint16_def Let_def split: if_splits)
  from walk_ifds_sound[OF w] True show ?thesis
    by (simp add: spec_tiff_accepted_def seek_BEG_def Let_def)
qed

lemma IsStreamCompatible_complete:
  assumes "spec_tiff_accepted s"
  shows "\<exists>s'. IsStreamCompatible s = Some (True, s')"
proof -
  let ?header = "take 8 (drop (position s) (content s))"
  let ?be = "?header ! 0 = 0x4D"
  let ?s1 = "s\<lparr>position := position s + 8\<rparr>"
  let ?s2 = "seek_BEG (position s + get_uint32 ?be (take 4 (drop 4 ?header))) ?s1"
  from assms have h: "tiff_header_accepted s"
    and c: "spec_ifd_chain ?be (position s) (int (length (content s)) - int (position s)) (content s)
              (position s + get_uint32 ?be (take 4 (drop 4 ?header)))"
    by (simp_all add: spec_tiff_accepted_def Let_def)
  have "content ?s2 = content s" "position ?s2 = position s + get_uint32 ?be (take 4 (drop 4 ?header))"
    by (simp_all add: seek_BEG_def)
  from walk_ifds_complete[OF c this] obtain y where
    w: "walk_ifds ?be (position s) (int (length (content s)) - int (position s)) ?s2 = Some y" by blast
  from h w have "IsStreamCompatible s = Some y"
    by (auto simp: IsStreamCompatible_def tiff_header_accepted_def read_s_eq tell_def size_s_def
          get_uint16_def Let_def split: if_splits)
  with IsStreamCompatible_sound[of s y] assms show ?thesis by (cases y) auto
qed

text \<open>
  Claim C7, at the input where it fails. On the TIFF whose directory names itself as the
  next directory, the probe does not return: the chain is unterminated, the conditions of
  the claim do not hold, and the probe does not return false. For the rest the claim
  holds: a stream is accepted by the probe iff it satisfies the conditions, and a stream
  on which the probe returns false violates them.
\<close>

theorem IsStreamCompatible_cyclic_chain:
  "IsStreamCompatible cyclicTiff = None
   \<and> \<not> spec_tiff_accepted cyclicTiff
   \<and> ((\<exists>s'. IsStreamCompatible s = Some (True, s')) = spec_tiff_accepted s)
   \<and> (IsStreamCompatible sF = Some (False, sF') \<longrightarrow> \<not> spec_tiff_accepted sF)"
proof (intro conjI impI)
  show "IsStreamCompatible cyclicTiff = None" by (rule IsStreamCompatible_cyclic)
  show "\<not> spec_tiff_accepted cyclicTiff"
    using IsStreamCompatible_complete[of cyclicTiff] IsStreamCompatible_cyclic by auto
  show "(\<exists>s'. IsStreamCompatible s = Some (True, s')) = spec_tiff_accepted s"
    using IsStreamCompatible_complete[of s] IsStreamCompatible_sound[of s] by fastforce
next
  assume "IsStreamCompatible sF = Some (False, sF')"
  from IsStreamCompatible_sound[OF this] show "\<not> spec_tiff_accepted sF" by simp
qed

text \<open>The valid TIFF is accepted and satisfies the conditions; the three-byte stream does neither.\<close>

theorem IsStreamCompatible_cyclic_chain_witness:
  "IsStreamCompatible validTiff = Some (True, validTiff\<lparr>position := 26\<rparr>)
   \<and> spec_tiff_accepted validTiff
   \<and> IsStreamCompatible shortStream = Some (False, shortStream\<lparr>position := 3\<rparr>)
   \<and> \<not> spec_tiff_accepted shortStream"
  using IsStreamCompatible_cyclic_chain [where s = validTiff and sF = shortStream
          and sF' = "shortStream\<lparr>position := 3\<rparr>"]
        example_valid
  by (simp add: IsStreamCompatible_def read_s_def tell_def Let_def shortStream_def)

lemmas block_example_defs = exampleBlockProvider_def structBlock_def shortStream_def

lemma IsStreamCompatible_bad_header_position:
  "\<not> tiff_header_accepted s \<Longrightarrow>
     IsStreamCompatible s
       = Some (False, s\<lparr>position := position s + length (take 8 (drop (position s) (content s)))\<rparr>)"
  by (simp add: IsStreamCompatible_bad_header) (simp add: read_s_def Let_def)

text \<open>
  Claim C3, as amended. The TIFF probe signals nothing but its verdict: on a header that is
  short or has a wrong byte order or magic number it returns false, with the stream
  advanced by the header bytes it could read; whenever it returns it has only moved the
  cursor, and it does not seek back. The PowerVR probe passes on an exception of
  \<^verbatim>\<open>EnterContext\<close>; after entering it leaves the context on every path, returning
  \<^verbatim>\<open>RWTEXCOMPAT_ABSOLUTE\<close> for a struct block that starts with the platform descriptor
  and \<^verbatim>\<open>RWTEXCOMPAT_NONE\<close> otherwise, and re-throwing what reading the descriptor threw.
\<close>

theorem probes_without_rewind:
  "(\<not> tiff_header_accepted s \<longrightarrow>
      IsStreamCompatible s
        = Some (False, s\<lparr>position := position s + length (take 8 (drop (position s) (content s)))\<rparr>))
   \<and> (IsStreamCompatible sT = Some (verdict, sT') \<longrightarrow> content sT' = content sT)
   \<and> (EnterContext bp inpA = Thrown eA bA
        \<longrightarrow> IsCompatibleTextureBlock bp CHUNK_STRUCT PLATFORM_PVR inpA = Thrown eA bA)
   \<and> (EnterContext bp inpB = Returned uB bB \<and> getBlockID bp bB \<noteq> CHUNK_STRUCT
        \<longrightarrow> IsCompatibleTextureBlock bp CHUNK_STRUCT PLATFORM_PVR inpB
              = Returned RWTEXCOMPAT_NONE (LeaveContext bp bB))
   \<and> (EnterContext bp inpC = Returned uC bC \<and> getBlockID bp bC = CHUNK_STRUCT
        \<and> readUInt32 bp bC = Returned platformDescriptor bC'
        \<longrightarrow> IsCompatibleTextureBlock bp CHUNK_STRUCT PLATFORM_PVR inpC
              = Returned (if platformDescriptor = PLATFORM_PVR then RWTEXCOMPAT_ABSOLUTE
                          else RWTEXCOMPAT_NONE) (LeaveContext bp bC'))
   \<and> (EnterContext bp inpD = Returned uD bD \<and> getBlockID bp bD = CHUNK_STRUCT
        \<and> readUInt32 bp bD = Thrown eD bD'
        \<longrightarrow> IsCompatibleTextureBlock bp CHUNK_STRUCT PLATFORM_PVR inpD
              = Thrown eD (LeaveContext bp bD'))"
proof (intro conjI impI)
  assume "\<not> tiff_header_accepted s"
  then show "IsStreamCompatible s
        = Some (False, s\<lparr>position := position s + length (take 8 (drop (position s) (content s)))\<rparr>)"
    by (rule IsStreamCompatible_bad_header_position)
next
  assume "IsStreamCompatible sT = Some (verdict, sT')"
  from IsStreamCompatible_content[OF this] show "content sT' = content sT" by simp
qed (simp_all add: IsCompatibleTextureBlock_def)

text \<open>A stream of three bytes, the valid TIFF, and four example blocks, one for each path.\<close>

theorem probes_without_rewind_witness:
  "\<not> tiff_header_accepted shortStream
   \<and> IsStreamCompatible shortStream = Some (False, shortStream\<lparr>position := 3\<rparr>)
   \<and> IsStreamCompatible validTiff = Some (True, validTiff\<lparr>position := 26\<rparr>)
   \<and> content (validTiff\<lparr>position := 26\<rparr>) = content validTiff
   \<and> IsCompatibleTextureBlock exampleBlockProvider 1 10 ((structBlock [])\<lparr>headerPresent := False\<rparr>)
       = Thrown (RwException ''no block header'') ((structBlock [])\<lparr>headerPresent := False\<rparr>)
   \<and> IsCompatibleTextureBlock exampleBlockProvider 1 10 ((structBlock [10, 0, 0, 0])\<lparr>blockID := 3\<rparr>)
       = Returned RWTEXCOMPAT_NONE ((structBlock [10, 0, 0, 0])\<lparr>blockID := 3\<rparr>)
   \<and> IsCompatibleTextureBlock exampleBlockProvider 1 10 (structBlock [10, 0, 0, 0])
       = Returned RWTEXCOMPAT_ABSOLUTE ((structBlock [10, 0, 0, 0])\<lparr>cursor := 4\<rparr>)
   \<and> IsCompatibleTextureBlock exampleBlockProvider 1 10 (structBlock [10, 0])
       = Thrown (RwException ''end of block'') (structBlock [10, 0])"
  using probes_without_rewind
          [where s = shortStream and sT = validTiff and verdict = True
             and sT' = "validTiff\<lparr>position := 26\<rparr>"
             and bp = exampleBlockProvider and CHUNK_STRUCT = 1 and PLATFORM_PVR = 10
             and inpA = "(structBlock [])\<lparr>headerPresent := False\<rparr>"
             and eA = "RwException ''no block header''"
             and bA = "(structBlock [])\<lparr>headerPresent := False\<rparr>"
             and inpB = "(structBlock [10, 0, 0, 0])\<lparr>blockID := 3\<rparr>" and uB = "()"
             and bB = "(structBlock [10, 0, 0, 0])\<lparr>blockID := 3, contexts := 1\<rparr>"
             and inpC = "structBlock [10, 0, 0, 0]" and uC = "()"
             and bC = "(structBlock [10, 0, 0, 0])\<lparr>contexts := 1\<rparr>"
             and platformDescriptor = 10
             and bC' = "(structBlock [10, 0, 0, 0])\<lparr>contexts := 1, cursor := 4\<rparr>"
             and inpD = "structBlock [10, 0]" and uD = "()"
             and bD = "(structBlock [10, 0])\<lparr>contexts := 1\<rparr>"
             and eD = "RwException ''end of block''"
             and bD' = "(structBlock [10, 0])\<lparr>contexts := 1\<rparr>"]
        example_valid
  by (simp add: tiff_header_accepted_def block_example_defs get_uint32_def Let_def validTiff_def)

text \<open>
  The claim as stated fails: the TIFF probe leaves the accepted stream at offset 26 and the
  three-byte stream at offset 3, both entered at offset 0, and the PowerVR probe throws on a
  struct block of two bytes.
\<close>

theorem probes_restore_position_counterexample:
  "IsStreamCompatible validTiff = Some (True, validTiff\<lparr>position := 26\<rparr>)
   \<and> position validTiff = 0 \<and> position (validTiff\<lparr>position := 26\<rparr>) = 26
   \<and> IsStreamCompatible shortStream = Some (False, shortStream\<lparr>position := 3\<rparr>)
   \<and> position shortStream = 0
   \<and> IsCompatibleTextureBlock exampleBlockProvider 1 10 (structBlock [10, 0])
       = Thrown (RwException ''end of block'') (structBlock [10, 0])"
  using example_valid
  by (simp add: IsStreamCompatible_def IsCompatibleTextureBlock_def read_s_def tell_def Let_def
        block_example_defs validTiff_def)

section \<open>Properties of TIFF decoding\<close>

lemmas tiff_decode_defs = selectLayouts_def tiff_has_alpha_channel_def canTexelsDirectlyAcquire_def
  doRawMipmapBuffersNeedConversion_def getRasterDataRowSize_def canDirectlyWrite_def
  PHOTOMETRIC_MINISWHITE_def PHOTOMETRIC_MINISBLACK_def PHOTOMETRIC_RGB_def PHOTOMETRIC_PALETTE_def
  ORIENTATION_TOPLEFT_def Let_def

text \<open>
  Claim C8, at the input where it fails. For the RGB image the TIFF layout and the
  destination layout are the same format, depth and colour order, so no conversion of raw
  buffers is needed, and the scanline size equals the destination row size of 12 bytes;
  yet \<^verbatim>\<open>canTexelsDirectlyAcquire\<close> is false and the rows go through the scanline buffer.
  The flag takes the value of \<^verbatim>\<open>doRawMipmapBuffersNeedConversion\<close>, where the encoder's
  \<^verbatim>\<open>canDirectlyWrite\<close> compares that value with false and is true on the same layouts.
\<close>

theorem canTexelsDirectlyAcquire_inverted:
  "tiffRasterFormat (selectLayouts uninit rgbFields) = dstRasterFormat (selectLayouts uninit rgbFields)
   \<and> tiffDepth (selectLayouts uninit rgbFields) = dstDepth (selectLayouts uninit rgbFields)
   \<and> tiffColorOrder (selectLayouts uninit rgbFields) = dstColorOrder (selectLayouts uninit rgbFields)
   \<and> dstPaletteType (selectLayouts uninit rgbFields) = PALETTE_NONE
   \<and> hasKnownMapping (selectLayouts uninit rgbFields)
   \<and> getRasterDataRowSize (image_width rgbFields) (dstDepth (selectLayouts uninit rgbFields))
         (dstRowAlignment (selectLayouts uninit rgbFields)) = 12
   \<and> doRawMipmapBuffersNeedConversion RASTER_888 24 COLOR_RGBA PALETTE_NONE
         RASTER_888 24 COLOR_RGBA PALETTE_NONE = False
   \<and> canTexelsDirectlyAcquire 12 rgbFields (selectLayouts uninit rgbFields) = False
   \<and> canDirectlyWrite RASTER_888 24 COLOR_RGBA PALETTE_NONE 12 RASTER_888 24 COLOR_RGBA 12 = True"
  by (simp add: rgbFields_def tiff_decode_defs)

text \<open>The same evaluation with the layout variables holding arbitrary values at first.\<close>

theorem canTexelsDirectlyAcquire_inverted_witness:
  "hasKnownMapping (selectLayouts unassignedLayouts rgbFields)
   \<and> dstRasterFormat (selectLayouts unassignedLayouts rgbFields) = RASTER_888
   \<and> tiffRasterFormat (selectLayouts unassignedLayouts rgbFields) = RASTER_888
   \<and> canTexelsDirectlyAcquire 12 rgbFields (selectLayouts unassignedLayouts rgbFields) = False"
  using canTexelsDirectlyAcquire_inverted [where uninit = unassignedLayouts]
  by (simp add: rgbFields_def unassignedLayouts_def tiff_decode_defs)

section \<open>Properties of the PowerVR pixel acquisition\<close>









end
